theory Spec2Isabelle
  imports Complex_Main
begin

section \<open>Values of the payload\<close>

text \<open>
  The three variants of the display layer (\<^verbatim>\<open>app/static/scripts/app.js\<close>, its
  earlier form without charts, and the function-based \<^verbatim>\<open>app/static/script.js\<close>)
  read a JSON payload by property access. A property of a payload object is
  absent (\<open>Undefined\<close>), \<open>null\<close>, or a primitive. The numbers of a payload
  are modelled as integers (counts and whole-dollar amounts); the chart's
  millions transform computes on rationals as binary64 arithmetic does.
  Strings are byte strings (UTF-8).

  The markup of the page is not among the sources: the elements the code
  looks up are taken to exist. An operation is modelled as one run from its
  call to its end, with the outcome of its network call given; two requests
  in flight at once are not modelled.
\<close>

datatype jsval = Undefined | Null | Bool bool | Num int | Str string

text \<open>The names of the errors the engine or the code throws, and a thrown error
  with its \<open>message\<close>.\<close>

datatype err_name = Error | TypeError | SyntaxError | AbortError

datatype js_error = JsError err_name string

fun name_of :: "err_name \<Rightarrow> string" where
  "name_of Error = ''Error''"
| "name_of TypeError = ''TypeError''"
| "name_of SyntaxError = ''SyntaxError''"
| "name_of AbortError = ''AbortError''"

fun message :: "js_error \<Rightarrow> string" where
  "message (JsError n m) = m"

text \<open>\<^verbatim>\<open>String(error)\<close>, that is \<^verbatim>\<open>Error.prototype.toString\<close>: the name alone
  when the message is empty.\<close>

fun error_toString :: "js_error \<Rightarrow> string" where
  "error_toString (JsError n m) = (if m = [] then name_of n else name_of n @ '': '' @ m)"

subsection \<open>Numbers as text\<close>

definition digit :: "nat \<Rightarrow> char" where
  "digit d = ''0123456789'' ! (d mod 10)"

fun digits :: "nat \<Rightarrow> string" where
  "digits n = (if n < 10 then [digit n] else digits (n div 10) @ [digit (n mod 10)])"

declare digits.simps [simp del]

text \<open>\<^verbatim>\<open>Number.prototype.toString\<close> on an integer.\<close>

definition number_toString :: "int \<Rightarrow> string" where
  "number_toString n = (if n < 0 then ''-'' @ digits (nat (- n)) else digits (nat n))"

text \<open>The \<^verbatim>\<open>en-US\<close> grouping of a digit string: a comma before every group
  of three digits counted from the right.\<close>

fun group3 :: "string \<Rightarrow> string" where
  "group3 ds = (if length ds \<le> 3 then ds
                else group3 (take (length ds - 3) ds) @ '','' @ drop (length ds - 3) ds)"

declare group3.simps [simp del]

text \<open>\<^verbatim>\<open>new Intl.NumberFormat('en-US').format(n)\<close> and, under the \<^verbatim>\<open>en-US\<close>
  locale, \<^verbatim>\<open>n.toLocaleString()\<close>.\<close>

definition formatNumber :: "int \<Rightarrow> string" where
  "formatNumber n = (if n < 0 then ''-'' @ group3 (digits (nat (- n))) else group3 (digits (nat n)))"

text \<open>\<^verbatim>\<open>formatCurrency\<close>: \<^verbatim>\<open>Intl.NumberFormat('en-US', {style: 'currency',
  currency: 'USD', minimumFractionDigits: 0, maximumFractionDigits: 0})\<close>.
  The argument is \<open>None\<close> when its conversion to a number is \<^verbatim>\<open>NaN\<close>.\<close>

definition formatCurrency :: "int option \<Rightarrow> string" where
  "formatCurrency a =
     (case a of
        None \<Rightarrow> ''$NaN''
      | Some n \<Rightarrow> (if n < 0 then ''-$'' @ group3 (digits (nat (- n)))
                  else ''$'' @ group3 (digits (nat n))))"

subsection \<open>Conversions of the language\<close>

text \<open>\<^verbatim>\<open>ToBoolean\<close>: what \<^verbatim>\<open>||\<close>, \<^verbatim>\<open>!\<close> and \<^verbatim>\<open>?:\<close> test.\<close>

fun truthy :: "jsval \<Rightarrow> bool" where
  "truthy Undefined = False"
| "truthy Null = False"
| "truthy (Bool b) = b"
| "truthy (Num n) = (n \<noteq> 0)"
| "truthy (Str s) = (s \<noteq> [])"

text \<open>\<^verbatim>\<open>ToString\<close>: what \<^verbatim>\<open>String(v)\<close> and a template literal apply.\<close>

fun toString :: "jsval \<Rightarrow> string" where
  "toString Undefined = ''undefined''"
| "toString Null = ''null''"
| "toString (Bool b) = (if b then ''true'' else ''false'')"
| "toString (Num n) = number_toString n"
| "toString (Str s) = s"

text \<open>\<^verbatim>\<open>a || b\<close> and \<^verbatim>\<open>a ?? b\<close>.\<close>

definition or_else :: "jsval \<Rightarrow> jsval \<Rightarrow> jsval" where
  "or_else a b = (if truthy a then a else b)"

fun nullish :: "jsval \<Rightarrow> bool" where
  "nullish Undefined = True"
| "nullish Null = True"
| "nullish v = False"

definition coalesce :: "jsval \<Rightarrow> jsval \<Rightarrow> jsval" where
  "coalesce a b = (if nullish a then b else a)"

section \<open>Formatter: labels\<close>

text \<open>The class \<^verbatim>\<open>\w\<close> of the regular expressions: ASCII letters, digits and
  the underscore. A byte of a multi-byte UTF-8 sequence is never in it.\<close>

definition lower_case :: string where
  "lower_case = ''abcdefghijklmnopqrstuvwxyz''"

definition upper_case :: string where
  "upper_case = ''ABCDEFGHIJKLMNOPQRSTUVWXYZ''"

definition is_word :: "char \<Rightarrow> bool" where
  "is_word c = (c \<in> set (lower_case @ upper_case @ ''0123456789_''))"

text \<open>\<^verbatim>\<open>l.toUpperCase()\<close> on one character matched by \<^verbatim>\<open>\w\<close>.\<close>

definition toUpperCase :: "char \<Rightarrow> char" where
  "toUpperCase c = (case map_of (zip lower_case upper_case) c of None \<Rightarrow> c | Some u \<Rightarrow> u)"

text \<open>\<^verbatim>\<open>.replace(/_/g, ' ')\<close>.\<close>

definition replace_underscores :: "string \<Rightarrow> string" where
  "replace_underscores s = map (\<lambda>c. if c = CHR ''_'' then CHR '' '' else c) s"

text \<open>\<^verbatim>\<open>.replace(/\b\w/g, l => l.toUpperCase())\<close>: a word character is replaced
  when the position before it is a word boundary, that is when it starts the
  string or follows a character outside \<^verbatim>\<open>\w\<close>. The flag says whether the
  previous character is a word character.\<close>

fun capitalize_words :: "bool \<Rightarrow> string \<Rightarrow> string" where
  "capitalize_words prev [] = []"
| "capitalize_words prev (c # cs) =
     (if is_word c \<and> \<not> prev then toUpperCase c else c) # capitalize_words (is_word c) cs"

text \<open>\<^verbatim>\<open>formatLabel(key)\<close> of \<^verbatim>\<open>script.js\<close> and \<^verbatim>\<open>formatText(text)\<close> of the
  earlier class: the method \<^verbatim>\<open>replace\<close> is read off the argument, which
  throws a \<^verbatim>\<open>TypeError\<close> unless the argument is a string.\<close>

fun formatLabel :: "jsval \<Rightarrow> js_error + string" where
  "formatLabel (Str s) = Inr (capitalize_words False (replace_underscores s))"
| "formatLabel Undefined = Inl (JsError TypeError ''Cannot read properties of undefined (reading 'replace')'')"
| "formatLabel Null = Inl (JsError TypeError ''Cannot read properties of null (reading 'replace')'')"
| "formatLabel v = Inl (JsError TypeError ''key.replace is not a function'')"

fun formatText_v1 :: "jsval \<Rightarrow> js_error + string" where
  "formatText_v1 (Str s) = Inr (capitalize_words False (replace_underscores s))"
| "formatText_v1 Undefined = Inl (JsError TypeError ''Cannot read properties of undefined (reading 'replace')'')"
| "formatText_v1 Null = Inl (JsError TypeError ''Cannot read properties of null (reading 'replace')'')"
| "formatText_v1 v = Inl (JsError TypeError ''text.replace is not a function'')"

text \<open>\<^verbatim>\<open>formatText(text)\<close> of \<^verbatim>\<open>app.js\<close>:
  \<^verbatim>\<open>String(text || '').replace(/_/g, ' ').replace(/\b\w/g, l => l.toUpperCase())\<close>.\<close>

definition formatText :: "jsval \<Rightarrow> string" where
  "formatText t =
     capitalize_words False (replace_underscores (toString (or_else t (Str []))))"

text \<open>The same on an argument that is not a primitive. An object (an array, a
  function) is truthy, so \<^verbatim>\<open>String\<close> is applied to the object itself; the
  object is given by what that conversion makes of it: a text, or the error it
  throws (a \<^verbatim>\<open>TypeError\<close> when neither \<^verbatim>\<open>toString\<close> nor \<^verbatim>\<open>valueOf\<close> of the
  object yields a primitive, as for the parsed JSON \<^verbatim>\<open>{"toString": 0}\<close>).\<close>

definition formatText_object :: "js_error + string \<Rightarrow> js_error + string" where
  "formatText_object converted =
     (case converted of
        Inl e \<Rightarrow> Inl e
      | Inr t \<Rightarrow> Inr (capitalize_words False (replace_underscores t)))"

section \<open>Data model\<close>

text \<open>A numeric field of a projection: a number, \<^verbatim>\<open>null\<close>, or absent from
  the object.\<close>

datatype numfield = Absent | IsNull | Number int

text \<open>\<^verbatim>\<open>x || 0\<close> and \<^verbatim>\<open>x ?? 0\<close> on a numeric field, its \<^verbatim>\<open>ToString\<close> (a
  template literal), and its \<^verbatim>\<open>ToNumber\<close> (\<open>None\<close> is \<^verbatim>\<open>NaN\<close>), which the
  number formatter applies to its argument.\<close>

fun or_zero :: "numfield \<Rightarrow> int" where
  "or_zero (Number n) = (if n \<noteq> 0 then n else 0)"
| "or_zero v = 0"

fun coalesce_zero :: "numfield \<Rightarrow> int" where
  "coalesce_zero (Number n) = n"
| "coalesce_zero v = 0"

fun field_toString :: "numfield \<Rightarrow> string" where
  "field_toString Absent = ''undefined''"
| "field_toString IsNull = ''null''"
| "field_toString (Number n) = number_toString n"

fun toNumber :: "numfield \<Rightarrow> int option" where
  "toNumber Absent = None"
| "toNumber IsNull = Some 0"
| "toNumber (Number n) = Some n"

record projection =
  month :: numfield
  sales_people :: numfield
  large_customers_cumulative :: numfield
  small_customers_cumulative :: numfield
  large_customers_acquired :: numfield
  small_customers_acquired :: numfield
  large_customer_revenue :: numfield
  small_customer_revenue :: numfield
  total_revenue :: numfield
  marketing_spend :: numfield

text \<open>A driver; its properties \<^verbatim>\<open>name\<close>, \<^verbatim>\<open>type\<close>, \<^verbatim>\<open>value\<close>, \<^verbatim>\<open>unit\<close>,
  \<^verbatim>\<open>formula\<close> and \<^verbatim>\<open>business_unit\<close>.\<close>

record driver =
  d_name :: jsval
  d_type :: jsval
  d_value :: jsval
  d_unit :: jsval
  d_formula :: jsval
  d_business_unit :: jsval

text \<open>The body of a response, once parsed: an object with the properties the
  code reads. A list property is \<open>None\<close> when the object does not have it.
  A mapping is the list of its entries in the order \<^verbatim>\<open>Object.keys\<close> gives.\<close>

record model =
  model_id :: jsval
  monthly_projections :: "projection list option"
  revenue_drivers :: "driver list option"
  assumptions :: "(string \<times> jsval) list option"
  assumptions_used :: "(string \<times> jsval) list option"
  detail :: jsval

section \<open>The page and its collaborators\<close>

text \<open>The children of a card container: the placeholder paragraph, a card
  of the class-based variants with the text of its heading and paragraphs, and
  the items of \<^verbatim>\<open>script.js\<close>, kept as the data they are drawn from (their
  text formats fractional numbers).\<close>

datatype element =
    Paragraph string
  | Card string string "string list"
  | DriverItem driver
  | AssumptionItem string jsval

text \<open>Modelled from the spec: the tabs of the page, which the markup declares
  and the sources do not contain; they are the four states the TabController
  of the specification lists. \<^verbatim>\<open>app.js\<close> itself names only \<^verbatim>\<open>'charts'\<close>.\<close>

datatype tab = Table | Drivers | Assumptions | Charts

text \<open>The three chart slots of \<^verbatim>\<open>this.charts\<close>; each has its canvas.\<close>

datatype slot = RevenueLine | RevenueBreakdown | RevenueMillion

record chart_config =
  kind :: string
  labels :: "string list"
  datasets :: "(string \<times> rat list) list"

text \<open>A live widget of the chart library: its identity, the canvas it draws
  on, and what it draws.\<close>

record widget =
  wid :: nat
  canvas :: slot
  config :: chart_config

text \<open>What the code asks of the network collaborator, and what comes back.\<close>

datatype request = Search "(string \<times> string) list" | ExportExcel string

datatype body = Unparsable js_error | Parsed model

datatype fetch_result = Rejected js_error | Response bool body

datatype blob_result = BlobRejected js_error | BlobResponse bool "js_error option"

record page =
  currentModel :: "model option"
  currentModelId :: jsval
  charts :: "slot \<Rightarrow> nat option"
  queryInput :: string
  monthsInput :: string
  initialSalesPeopleInput :: string
  marketingSpendInput :: string
  largeCustomerRevenueInput :: string
  loadingShown :: bool
  resultsShown :: bool
  errorShown :: bool
  errorText :: string
  modelIdText :: string
  timeHorizonText :: string
  totalRevenueText :: string
  month1RevenueText :: string
  finalRevenueText :: string
  tbody :: "string list list"
  driversContainer :: "element list"
  assumptionsContainer :: "element list"
  activeTab :: tab
  canvases :: "slot \<Rightarrow> bool"
  chartLib :: bool
  instances :: "widget list"
  nextChart :: nat
  requests :: "request list"
  downloads :: "string list"
  alerts :: "string list"
  notices :: "string list"

text \<open>The page as the constructor leaves it: no model, no chart, nothing
  shown, the first tab active. The canvases and the chart library are there.\<close>

definition initial :: page where
  "initial =
     \<lparr>currentModel = None, currentModelId = Null, charts = (\<lambda>k. None),
      queryInput = [], monthsInput = [], initialSalesPeopleInput = [],
      marketingSpendInput = [], largeCustomerRevenueInput = [],
      loadingShown = False, resultsShown = False, errorShown = False, errorText = [],
      modelIdText = [], timeHorizonText = [], totalRevenueText = [],
      month1RevenueText = [], finalRevenueText = [],
      tbody = [], driversContainer = [], assumptionsContainer = [],
      activeTab = Table, canvases = (\<lambda>k. True), chartLib = True,
      instances = [], nextChart = 0,
      requests = [], downloads = [], alerts = [], notices = []\<rparr>"

section \<open>The class of \<^verbatim>\<open>app.js\<close>\<close>

subsection \<open>Trimming the query\<close>

text \<open>\<^verbatim>\<open>String.prototype.trim\<close> removes white space and line terminators from
  both ends. These are their code points, each in UTF-8: U+0009 to U+000D,
  U+0020, U+00A0, U+1680, U+2000 to U+200A, U+2028, U+2029, U+202F, U+205F,
  U+3000 and U+FEFF.\<close>

definition white_space :: "string list" where
  "white_space =
     [[CHR 0x09], [CHR 0x0A], [CHR 0x0B], [CHR 0x0C], [CHR 0x0D], [CHR 0x20],
      [CHR 0xC2, CHR 0xA0], [CHR 0xE1, CHR 0x9A, CHR 0x80],
      [CHR 0xE2, CHR 0x80, CHR 0x80], [CHR 0xE2, CHR 0x80, CHR 0x81],
      [CHR 0xE2, CHR 0x80, CHR 0x82], [CHR 0xE2, CHR 0x80, CHR 0x83],
      [CHR 0xE2, CHR 0x80, CHR 0x84], [CHR 0xE2, CHR 0x80, CHR 0x85],
      [CHR 0xE2, CHR 0x80, CHR 0x86], [CHR 0xE2, CHR 0x80, CHR 0x87],
      [CHR 0xE2, CHR 0x80, CHR 0x88], [CHR 0xE2, CHR 0x80, CHR 0x89],
      [CHR 0xE2, CHR 0x80, CHR 0x8A], [CHR 0xE2, CHR 0x80, CHR 0xA8],
      [CHR 0xE2, CHR 0x80, CHR 0xA9], [CHR 0xE2, CHR 0x80, CHR 0xAF],
      [CHR 0xE2, CHR 0x81, CHR 0x9F], [CHR 0xE3, CHR 0x80, CHR 0x80],
      [CHR 0xEF, CHR 0xBB, CHR 0xBF]]"

text \<open>Dropping, from the front of a string, every leading occurrence of one
  of the given sequences.\<close>

fun strip :: "string list \<Rightarrow> string \<Rightarrow> string" where
  "strip ws [] = []"
| "strip ws (c # cs) =
     (case find (\<lambda>w. take (length w) (c # cs) = w) ws of
        None \<Rightarrow> c # cs
      | Some w \<Rightarrow> strip ws (drop (length w - 1) cs))"

definition trim :: "string \<Rightarrow> string" where
  "trim s = rev (strip (map rev white_space) (rev (strip white_space s)))"

subsection \<open>Loading indicator and error banner\<close>

definition showLoading :: "bool \<Rightarrow> page \<Rightarrow> page" where
  "showLoading show s = s\<lparr>loadingShown := show\<rparr>"

definition showError :: "string \<Rightarrow> page \<Rightarrow> page" where
  "showError msg s = s\<lparr>errorText := msg, errorShown := True\<rparr>"

definition hideError :: "page \<Rightarrow> page" where
  "hideError s = s\<lparr>errorShown := False\<rparr>"

text \<open>The notice \<^verbatim>\<open>showSuccess\<close> adds; its removal three seconds later is not
  modelled.\<close>

definition showSuccess :: "string \<Rightarrow> page \<Rightarrow> page" where
  "showSuccess msg s = s\<lparr>notices := notices s @ [msg]\<rparr>"

text \<open>The \<^verbatim>\<open>catch\<close> block: \<^verbatim>\<open>this.showError(error.message || String(error))\<close>.\<close>

definition catch_error :: "js_error \<Rightarrow> page \<Rightarrow> page" where
  "catch_error e s = showError (if message e \<noteq> [] then message e else error_toString e) s"

text \<open>Assigning a value to \<^verbatim>\<open>textContent\<close>: \<^verbatim>\<open>undefined\<close> and \<^verbatim>\<open>null\<close> give
  the empty text.\<close>

definition textContent :: "jsval \<Rightarrow> string" where
  "textContent v = (if nullish v then [] else toString v)"

subsection \<open>Table and cards\<close>

text \<open>The text of the seven cells of a row. \<^verbatim>\<open>toLocaleString()\<close> is taken
  under the \<^verbatim>\<open>en-US\<close> locale of the currency formatter.\<close>

definition projection_row :: "projection \<Rightarrow> string list" where
  "projection_row proj =
     [''Month '' @ field_toString (month proj),
      field_toString (sales_people proj) @ '' people'',
      formatNumber (coalesce_zero (large_customers_cumulative proj)),
      formatNumber (coalesce_zero (small_customers_cumulative proj)),
      formatCurrency (Some (or_zero (large_customer_revenue proj))),
      formatCurrency (Some (or_zero (small_customer_revenue proj))),
      formatCurrency (Some (or_zero (total_revenue proj)))]"

definition displayProjectionsTable :: "projection list \<Rightarrow> page \<Rightarrow> page" where
  "displayProjectionsTable projections s =
     foldl (\<lambda>s proj. s\<lparr>tbody := tbody s @ [projection_row proj]\<rparr>)
       (s\<lparr>tbody := []\<rparr>) projections"

definition driver_card :: "driver \<Rightarrow> element" where
  "driver_card d =
     Card ''driver-card'' (formatText (d_name d))
       ([''Type: '' @ toString (or_else (d_type d) (Str ''N/A'')),
         ''Value: '' @ toString (coalesce (d_value d) (Str ''N/A'')) @ '' ''
            @ toString (or_else (d_unit d) (Str []))]
        @ (if truthy (d_formula d) then [''Formula: '' @ toString (d_formula d)] else [])
        @ (if truthy (d_business_unit d)
           then [''Business Unit: '' @ toString (d_business_unit d)] else []))"

definition displayRevenueDrivers :: "driver list \<Rightarrow> page \<Rightarrow> page" where
  "displayRevenueDrivers drivers s =
     (let s1 = s\<lparr>driversContainer := []\<rparr> in
      if length drivers = 0
      then s1\<lparr>driversContainer := [Paragraph ''No revenue drivers available'']\<rparr>
      else foldl (\<lambda>s d. s\<lparr>driversContainer := driversContainer s @ [driver_card d]\<rparr>)
             s1 drivers)"

definition assumption_card :: "string \<Rightarrow> jsval \<Rightarrow> element" where
  "assumption_card key v =
     Card ''assumption-card'' (formatText (Str key))
       [case v of Num n \<Rightarrow> formatNumber n | _ \<Rightarrow> toString v]"

definition displayAssumptions :: "(string \<times> jsval) list \<Rightarrow> page \<Rightarrow> page" where
  "displayAssumptions entries s =
     (let s1 = s\<lparr>assumptionsContainer := []\<rparr>;
          keys = map fst entries
      in if length keys = 0
         then s1\<lparr>assumptionsContainer := [Paragraph ''No assumptions available'']\<rparr>
         else foldl (\<lambda>s kv. s\<lparr>assumptionsContainer :=
                       assumptionsContainer s @ [assumption_card (fst kv) (snd kv)]\<rparr>)
                s1 entries)"

subsection \<open>Charts\<close>

text \<open>
  Arithmetic on numbers is that of binary64. A number is the rational it
  denotes; the result of a division or a multiplication is the exact result
  rounded to the nearest binary64 value, a tie going to the even significand.
  \<open>bits n\<close> is the length of \<open>n\<close> in binary and \<open>binexp x\<close> the exponent \<open>e\<close>
  with \<^verbatim>\<open>2^e <= |x| < 2^(e+1)\<close>; a value has 53 significant bits, or fewer below
  \<^verbatim>\<open>2^-1022\<close>. Overflow to \<^verbatim>\<open>Infinity\<close>, \<^verbatim>\<open>NaN\<close> and the sign of zero are not
  modelled.
\<close>

fun bits :: "nat \<Rightarrow> nat" where
  "bits n = (if n = 0 then 0 else Suc (bits (n div 2)))"

declare bits.simps [simp del]

definition binexp :: "rat \<Rightarrow> int" where
  "binexp x =
     (let s = bits (nat \<lceil>1 / \<bar>x\<bar>\<rceil>)
      in int (bits (nat \<lfloor>\<bar>x\<bar> * 2 ^ s\<rfloor>)) - 1 - int s)"

definition round_even :: "rat \<Rightarrow> int" where
  "round_even m =
     (let f = \<lfloor>m\<rfloor>; d = m - of_int f
      in if d < 1 / 2 then f else if 1 / 2 < d then f + 1 else if even f then f else f + 1)"

definition binary64 :: "rat \<Rightarrow> rat" where
  "binary64 x =
     (if x = 0 then 0
      else let e = max (binexp x - 52) (- 1074)
           in of_int (round_even (x / 2 powi e)) * 2 powi e)"

text \<open>\<^verbatim>\<open>Math.round\<close>: the nearest integer, a half going up. It is exact.\<close>

definition Math_round :: "rat \<Rightarrow> int" where
  "Math_round x = \<lfloor>x + 1 / 2\<rfloor>"

text \<open>\<^verbatim>\<open>v => Math.round((v / 1_000_000) * 100) / 100\<close>: a division, a
  multiplication, the rounding to an integer, and a division. The argument is
  a number, that is a binary64 value already; a whole number of size up to
  \<^verbatim>\<open>2^53\<close> is one.\<close>

definition toMillions :: "rat \<Rightarrow> rat" where
  "toMillions v =
     binary64 (of_int (Math_round (binary64 (binary64 (v / 1000000) * 100))) / 100)"

text \<open>\<^verbatim>\<open>chart.destroy()\<close> takes the widget out of the library's registry;
  \<^verbatim>\<open>this.charts[k] = new Chart(...)\<close> registers a fresh widget on the canvas
  of the slot and stores its handle.\<close>

definition destroy :: "nat \<Rightarrow> page \<Rightarrow> page" where
  "destroy c s = s\<lparr>instances := filter (\<lambda>w. wid w \<noteq> c) (instances s)\<rparr>"

definition new_Chart :: "slot \<Rightarrow> chart_config \<Rightarrow> page \<Rightarrow> page" where
  "new_Chart k cfg s =
     s\<lparr>instances := instances s @ [\<lparr>wid = nextChart s, canvas = k, config = cfg\<rparr>],
       nextChart := Suc (nextChart s),
       charts := (charts s)(k := Some (nextChart s))\<rparr>"

text \<open>\<^verbatim>\<open>if (this.charts[k]) this.charts[k].destroy();\<close>\<close>

definition release :: "slot \<Rightarrow> page \<Rightarrow> page" where
  "release k s = (case charts s k of None \<Rightarrow> s | Some c \<Rightarrow> destroy c s)"

text \<open>One of the three blocks of \<^verbatim>\<open>renderCharts\<close>:
  \<^verbatim>\<open>if (el && window.Chart) { if (this.charts[k]) this.charts[k].destroy();
  this.charts[k] = new Chart(el.getContext('2d'), cfg); }\<close>\<close>

definition draw :: "slot \<Rightarrow> chart_config \<Rightarrow> page \<Rightarrow> page" where
  "draw k cfg s = (if canvases s k \<and> chartLib s then new_Chart k cfg (release k s) else s)"

definition chart_labels :: "projection list \<Rightarrow> string list" where
  "chart_labels projections = map (\<lambda>p. ''M'' @ field_toString (month p)) projections"

definition line_config :: "projection list \<Rightarrow> chart_config" where
  "line_config projections =
     \<lparr>kind = ''line'', labels = chart_labels projections,
      datasets = [(''Total Revenue ($/month)'',
                   map (\<lambda>p. of_int (or_zero (total_revenue p))) projections)]\<rparr>"

definition bar_config :: "projection list \<Rightarrow> chart_config" where
  "bar_config projections =
     \<lparr>kind = ''bar'', labels = chart_labels projections,
      datasets = [(''Large Customers ($/month)'',
                   map (\<lambda>p. of_int (or_zero (large_customer_revenue p))) projections),
                  (''Small/Medium Customers ($/month)'',
                   map (\<lambda>p. of_int (or_zero (small_customer_revenue p))) projections)]\<rparr>"

definition million_config :: "projection list \<Rightarrow> chart_config" where
  "million_config projections =
     (let totalRev = map (\<lambda>p. of_int (or_zero (total_revenue p))) projections;
          totalRevMn = map toMillions totalRev
      in \<lparr>kind = ''line'', labels = chart_labels projections,
          datasets = [(''Total Revenues ($ Mn per month)'', totalRevMn)]\<rparr>)"

definition renderCharts :: "projection list \<Rightarrow> page \<Rightarrow> page" where
  "renderCharts projections s =
     (if length projections = 0 then s
      else draw RevenueMillion (million_config projections)
             (draw RevenueBreakdown (bar_config projections)
               (draw RevenueLine (line_config projections) s)))"

subsection \<open>Tabs\<close>

text \<open>On the charts tab with a model held, existing widgets are resized (which
  changes nothing that is modelled) and otherwise the charts are drawn.\<close>

definition switchTab :: "tab \<Rightarrow> page \<Rightarrow> page" where
  "switchTab tabName s =
     (let s1 = s\<lparr>activeTab := tabName\<rparr> in
      case currentModel s1 of
        None \<Rightarrow> s1
      | Some m \<Rightarrow>
          (case monthly_projections m of
             None \<Rightarrow> s1
           | Some projections \<Rightarrow>
               if tabName = Charts then
                 (if charts s1 RevenueLine \<noteq> None \<or> charts s1 RevenueBreakdown \<noteq> None
                     \<or> charts s1 RevenueMillion \<noteq> None
                  then s1
                  else renderCharts projections s1)
               else s1))"

subsection \<open>Results\<close>

definition displayResults :: "model \<Rightarrow> page \<Rightarrow> page" where
  "displayResults data s =
     (let s1 = s\<lparr>resultsShown := True\<rparr>;
          s2 = s1\<lparr>modelIdText := textContent (model_id data)\<rparr>;
          projections = (case monthly_projections data of None \<Rightarrow> [] | Some ps \<Rightarrow> ps);
          months = length projections;
          s3 = s2\<lparr>timeHorizonText := number_toString (int months) @ '' months''\<rparr>;
          totalRevenue = (if months \<noteq> 0 then or_zero (total_revenue (projections ! (months - 1)))
                          else 0);
          s4 = s3\<lparr>totalRevenueText := formatCurrency (Some totalRevenue)\<rparr>;
          s5 = displayProjectionsTable projections s4;
          s6 = displayRevenueDrivers
                 (case revenue_drivers data of None \<Rightarrow> [] | Some ds \<Rightarrow> ds) s5;
          s7 = displayAssumptions
                 (case assumptions data of None \<Rightarrow> [] | Some kvs \<Rightarrow> kvs) s6;
          s8 = renderCharts projections s7
      in switchTab Charts s8)"

subsection \<open>Requests\<close>

definition generic_failure :: string where
  "generic_failure = ''Failed to generate model. Please try again.''"

text \<open>The message of the error thrown on a response that is not ok:
  \<^verbatim>\<open>let detail = '...'; try { const err = await response.json();
  detail = err.detail || detail; } catch {} throw new Error(detail);\<close>\<close>

definition failure_detail :: "body \<Rightarrow> jsval" where
  "failure_detail b =
     (case b of
        Unparsable e \<Rightarrow> Str generic_failure
      | Parsed err \<Rightarrow> or_else (detail err) (Str generic_failure))"

definition generateModel :: "fetch_result \<Rightarrow> page \<Rightarrow> page" where
  "generateModel net s =
     (let query = trim (queryInput s) in
      if query = [] then showError ''Please describe your financial scenario'' s
      else
        let s1 = hideError (showLoading True s);
            s2 = s1\<lparr>requests := requests s1 @ [Search [(''query'', query)]]\<rparr>;
            s3 = (case net of
                    Rejected e \<Rightarrow> catch_error e s2
                  | Response ok b \<Rightarrow>
                      if \<not> ok then catch_error (JsError Error (toString (failure_detail b))) s2
                      else (case b of
                              Unparsable e \<Rightarrow> catch_error e s2
                            | Parsed data \<Rightarrow> displayResults data (s2\<lparr>currentModel := Some data\<rparr>)))
        in showLoading False s3)"

definition exportToExcel :: "blob_result \<Rightarrow> page \<Rightarrow> page" where
  "exportToExcel net s =
     (case currentModel s of
        None \<Rightarrow> s
      | Some m \<Rightarrow>
          let s1 = showLoading True s;
              s2 = s1\<lparr>requests := requests s1 @ [ExportExcel (toString (model_id m))]\<rparr>;
              s3 = (case net of
                      BlobRejected e \<Rightarrow> catch_error e s2
                    | BlobResponse ok blob \<Rightarrow>
                        if \<not> ok then catch_error (JsError Error ''Failed to export Excel file'') s2
                        else (case blob of
                                Some e \<Rightarrow> catch_error e s2
                              | None \<Rightarrow>
                                  showSuccess ''Excel file downloaded successfully!''
                                    (s2\<lparr>downloads := downloads s2 @
                                       [''financial_model_'' @ toString (model_id m) @ ''.xlsx'']\<rparr>)))
          in showLoading False s3)"

definition resetUI :: "page \<Rightarrow> page" where
  "resetUI s = hideError (s\<lparr>queryInput := [], resultsShown := False, currentModel := None\<rparr>)"

section \<open>The earlier class, without charts\<close>

text \<open>A step that can throw part of the way through: the page as it stands is
  kept in both cases. The messages of the engine's own \<^verbatim>\<open>TypeError\<close>s are
  written in the wording of V8.\<close>

datatype 's completion = Normal 's | Abrupt js_error 's

definition showError_v1 :: "js_error \<Rightarrow> page \<Rightarrow> page" where
  "showError_v1 e s = showError (message e) s"

text \<open>\<^verbatim>\<open>x?.toLocaleString() || '0'\<close>\<close>

definition locale_or_zero :: "numfield \<Rightarrow> string" where
  "locale_or_zero x =
     (case x of
        Number n \<Rightarrow> (if formatNumber n \<noteq> [] then formatNumber n else ''0'')
      | _ \<Rightarrow> ''0'')"

definition projection_row_v1 :: "projection \<Rightarrow> string list" where
  "projection_row_v1 proj =
     [''Month '' @ field_toString (month proj),
      field_toString (sales_people proj) @ '' people'',
      locale_or_zero (large_customers_cumulative proj),
      locale_or_zero (small_customers_cumulative proj),
      formatCurrency (Some (or_zero (large_customer_revenue proj))),
      formatCurrency (Some (or_zero (small_customer_revenue proj))),
      formatCurrency (Some (or_zero (total_revenue proj)))]"

definition displayProjectionsTable_v1 :: "projection list \<Rightarrow> page \<Rightarrow> page" where
  "displayProjectionsTable_v1 projections s =
     foldl (\<lambda>s proj. s\<lparr>tbody := tbody s @ [projection_row_v1 proj]\<rparr>)
       (s\<lparr>tbody := []\<rparr>) projections"

definition driver_card_v1 :: "string \<Rightarrow> driver \<Rightarrow> element" where
  "driver_card_v1 heading d =
     Card ''driver-card'' heading
       ([''Type: '' @ toString (or_else (d_type d) (Str ''N/A'')),
         ''Value: '' @ toString (or_else (d_value d) (Str ''N/A'')) @ '' ''
            @ toString (or_else (d_unit d) (Str []))]
        @ (if truthy (d_formula d) then [''Formula: '' @ toString (d_formula d)] else [])
        @ (if truthy (d_business_unit d)
           then [''Business Unit: '' @ toString (d_business_unit d)] else []))"

fun driver_cards_v1 :: "driver list \<Rightarrow> page \<Rightarrow> page completion" where
  "driver_cards_v1 [] s = Normal s"
| "driver_cards_v1 (d # ds) s =
     (case formatText_v1 (d_name d) of
        Inl e \<Rightarrow> Abrupt e s
      | Inr heading \<Rightarrow>
          driver_cards_v1 ds
            (s\<lparr>driversContainer := driversContainer s @ [driver_card_v1 heading d]\<rparr>))"

definition displayRevenueDrivers_v1 :: "driver list option \<Rightarrow> page \<Rightarrow> page completion" where
  "displayRevenueDrivers_v1 drivers s =
     (let s1 = s\<lparr>driversContainer := []\<rparr> in
      case drivers of
        None \<Rightarrow> Normal (s1\<lparr>driversContainer := [Paragraph ''No revenue drivers available'']\<rparr>)
      | Some ds \<Rightarrow>
          if length ds = 0
          then Normal (s1\<lparr>driversContainer := [Paragraph ''No revenue drivers available'']\<rparr>)
          else driver_cards_v1 ds s1)"

fun assumption_cards_v1 :: "(string \<times> jsval) list \<Rightarrow> page \<Rightarrow> page completion" where
  "assumption_cards_v1 [] s = Normal s"
| "assumption_cards_v1 (kv # kvs) s =
     (case formatText_v1 (Str (fst kv)) of
        Inl e \<Rightarrow> Abrupt e s
      | Inr formattedKey \<Rightarrow>
          assumption_cards_v1 kvs
            (s\<lparr>assumptionsContainer := assumptionsContainer s @
                 [Card ''assumption-card'' formattedKey
                    [case snd kv of Num n \<Rightarrow> formatNumber n | _ \<Rightarrow> toString (snd kv)]]\<rparr>))"

definition displayAssumptions_v1 ::
  "(string \<times> jsval) list option \<Rightarrow> page \<Rightarrow> page completion" where
  "displayAssumptions_v1 entries s =
     (let s1 = s\<lparr>assumptionsContainer := []\<rparr> in
      case entries of
        None \<Rightarrow> Normal (s1\<lparr>assumptionsContainer := [Paragraph ''No assumptions available'']\<rparr>)
      | Some kvs \<Rightarrow>
          if length kvs = 0
          then Normal (s1\<lparr>assumptionsContainer := [Paragraph ''No assumptions available'']\<rparr>)
          else assumption_cards_v1 kvs s1)"

definition displayResults_v1 :: "model \<Rightarrow> page \<Rightarrow> page completion" where
  "displayResults_v1 data s =
     (let s1 = s\<lparr>resultsShown := True\<rparr>;
          s2 = s1\<lparr>modelIdText := textContent (model_id data)\<rparr>
      in case monthly_projections data of
           None \<Rightarrow>
             Abrupt (JsError TypeError ''Cannot read properties of undefined (reading 'length')'') s2
         | Some projections \<Rightarrow>
             let s3 = s2\<lparr>timeHorizonText :=
                         number_toString (int (length projections)) @ '' months''\<rparr>;
                 totalRevenue =
                   (if length projections = 0 then Some 0
                    else toNumber (total_revenue (projections ! (length projections - 1))));
                 s4 = s3\<lparr>totalRevenueText := formatCurrency totalRevenue\<rparr>;
                 s5 = displayProjectionsTable_v1 projections s4
             in case displayRevenueDrivers_v1 (revenue_drivers data) s5 of
                  Abrupt e s6 \<Rightarrow> Abrupt e s6
                | Normal s6 \<Rightarrow> displayAssumptions_v1 (assumptions_used data) s6)"

definition generateModel_v1 :: "fetch_result \<Rightarrow> page \<Rightarrow> page" where
  "generateModel_v1 net s =
     (let query = trim (queryInput s) in
      if query = [] then showError ''Please describe your financial scenario'' s
      else
        let s1 = hideError (showLoading True s);
            s2 = s1\<lparr>requests := requests s1 @ [Search [(''query'', query)]]\<rparr>;
            s3 = (case net of
                    Rejected e \<Rightarrow> showError_v1 e s2
                  | Response ok b \<Rightarrow>
                      if \<not> ok then
                        (case b of
                           Unparsable e \<Rightarrow> showError_v1 e s2
                         | Parsed errorData \<Rightarrow>
                             showError_v1
                               (JsError Error
                                  (toString (or_else (detail errorData) (Str generic_failure))))
                               s2)
                      else
                        (case b of
                           Unparsable e \<Rightarrow> showError_v1 e s2
                         | Parsed data \<Rightarrow>
                             (case displayResults_v1 data (s2\<lparr>currentModel := Some data\<rparr>) of
                                Normal s' \<Rightarrow> s'
                              | Abrupt e s' \<Rightarrow> showError_v1 e s')))
        in showLoading False s3)"

definition exportToExcel_v1 :: "blob_result \<Rightarrow> page \<Rightarrow> page" where
  "exportToExcel_v1 net s =
     (case currentModel s of
        None \<Rightarrow> s
      | Some m \<Rightarrow>
          let s1 = showLoading True s;
              s2 = s1\<lparr>requests := requests s1 @ [ExportExcel (toString (model_id m))]\<rparr>;
              s3 = (case net of
                      BlobRejected e \<Rightarrow> showError_v1 e s2
                    | BlobResponse ok blob \<Rightarrow>
                        if \<not> ok then showError_v1 (JsError Error ''Failed to export Excel file'') s2
                        else (case blob of
                                Some e \<Rightarrow> showError_v1 e s2
                              | None \<Rightarrow>
                                  showSuccess ''Excel file downloaded successfully!''
                                    (s2\<lparr>downloads := downloads s2 @
                                       [''financial_model_'' @ toString (model_id m) @ ''.xlsx'']\<rparr>)))
          in showLoading False s3)"

definition switchTab_v1 :: "tab \<Rightarrow> page \<Rightarrow> page" where
  "switchTab_v1 tabName s = s\<lparr>activeTab := tabName\<rparr>"

definition resetUI_v1 :: "page \<Rightarrow> page" where
  "resetUI_v1 s = s\<lparr>queryInput := [], resultsShown := False, currentModel := None\<rparr>"

section \<open>The functions of \<^verbatim>\<open>script.js\<close>\<close>

definition showLoading_script :: "page \<Rightarrow> page" where
  "showLoading_script s = s\<lparr>loadingShown := True, resultsShown := False\<rparr>"

definition hideLoading :: "page \<Rightarrow> page" where
  "hideLoading s = s\<lparr>loadingShown := False\<rparr>"

text \<open>\<^verbatim>\<open>showError(message)\<close>: \<^verbatim>\<open>hideLoading(); alert(`Error: ${message}`);\<close>\<close>

definition showError_script :: "string \<Rightarrow> page \<Rightarrow> page" where
  "showError_script msg s = (let s1 = hideLoading s in s1\<lparr>alerts := alerts s1 @ [''Error: '' @ msg]\<rparr>)"

definition projection_row_script :: "projection \<Rightarrow> string list" where
  "projection_row_script projection =
     [field_toString (month projection),
      field_toString (sales_people projection),
      field_toString (large_customers_acquired projection),
      formatCurrency (toNumber (large_customer_revenue projection)),
      field_toString (small_customers_acquired projection),
      formatCurrency (toNumber (small_customer_revenue projection)),
      formatCurrency (toNumber (marketing_spend projection)),
      formatCurrency (toNumber (total_revenue projection))]"

definition displayProjectionsTable_script :: "projection list \<Rightarrow> page \<Rightarrow> page" where
  "displayProjectionsTable_script projections s =
     foldl (\<lambda>s projection. s\<lparr>tbody := tbody s @ [projection_row_script projection]\<rparr>)
       (s\<lparr>tbody := []\<rparr>) projections"

text \<open>An item of the drivers list. Reading \<^verbatim>\<open>driver.name.replace\<close> throws
  unless the name is a string; \<^verbatim>\<open>formatValue(value, unit)\<close> ends in
  \<^verbatim>\<open>value.toLocaleString()\<close> when the unit is none of \<^verbatim>\<open>$\<close>, \<^verbatim>\<open>#\<close> and \<^verbatim>\<open>%\<close>,
  which throws on a value that is absent or null.\<close>

fun driver_items_script :: "driver list \<Rightarrow> page \<Rightarrow> page completion" where
  "driver_items_script [] s = Normal s"
| "driver_items_script (d # ds) s =
     (case d_name d of
        Str n \<Rightarrow>
          if d_unit d \<noteq> Str ''$'' \<and> d_unit d \<noteq> Str ''#'' \<and> d_unit d \<noteq> Str ''%''
             \<and> nullish (d_value d)
          then Abrupt (JsError TypeError
                 ''Cannot read properties of undefined (reading 'toLocaleString')'') s
          else driver_items_script ds (s\<lparr>driversContainer := driversContainer s @ [DriverItem d]\<rparr>)
      | _ \<Rightarrow> Abrupt (JsError TypeError
                 ''Cannot read properties of undefined (reading 'replace')'') s)"

definition displayRevenueDrivers_script :: "driver list option \<Rightarrow> page \<Rightarrow> page completion" where
  "displayRevenueDrivers_script drivers s =
     (let s1 = s\<lparr>driversContainer := []\<rparr> in
      case drivers of
        None \<Rightarrow> Abrupt (JsError TypeError
                  ''Cannot read properties of undefined (reading 'forEach')'') s1
      | Some ds \<Rightarrow> driver_items_script ds s1)"

definition keyAssumptions :: "string list" where
  "keyAssumptions =
     [''initial_sales_people'', ''sales_people_growth_rate'',
      ''large_customer_revenue_monthly'', ''small_customer_revenue_monthly'',
      ''marketing_spend_monthly'', ''sales_inquiries_per_month'', ''conversion_rate'']"

definition displayAssumptions_script ::
  "(string \<times> jsval) list option \<Rightarrow> page \<Rightarrow> page completion" where
  "displayAssumptions_script entries s =
     (let s1 = s\<lparr>assumptionsContainer := []\<rparr> in
      case entries of
        None \<Rightarrow> Abrupt (JsError TypeError
                  ''Cannot read properties of undefined (reading 'initial_sales_people')'') s1
      | Some kvs \<Rightarrow>
          Normal (foldl (\<lambda>s key.
                    case map_of kvs key of
                      None \<Rightarrow> s
                    | Some v \<Rightarrow>
                        if v \<noteq> Undefined
                        then s\<lparr>assumptionsContainer :=
                                 assumptionsContainer s @ [AssumptionItem key v]\<rparr>
                        else s)
                  s1 keyAssumptions))"

definition displayResults_script :: "model \<Rightarrow> page \<Rightarrow> page completion" where
  "displayResults_script data s =
     (let s0 = hideLoading s in
      case model_id data of
        Str mid \<Rightarrow>
          (let s1 = s0\<lparr>modelIdText := take 8 mid @ ''...''\<rparr> in
           case monthly_projections data of
             None \<Rightarrow> Abrupt (JsError TypeError
                       ''Cannot read properties of undefined (reading 'length')'') s1
           | Some projections \<Rightarrow>
               let s2 = s1\<lparr>timeHorizonText :=
                           number_toString (int (length projections)) @ '' months''\<rparr>
               in if length projections = 0
                  then Abrupt (JsError TypeError
                         ''Cannot read properties of undefined (reading 'total_revenue')'') s2
                  else
                    let firstMonth = projections ! 0;
                        lastMonth = projections ! (length projections - 1);
                        s3 = s2\<lparr>month1RevenueText :=
                                  formatCurrency (toNumber (total_revenue firstMonth))\<rparr>;
                        s4 = s3\<lparr>finalRevenueText :=
                                  formatCurrency (toNumber (total_revenue lastMonth))\<rparr>
                    in case displayRevenueDrivers_script (revenue_drivers data) s4 of
                         Abrupt e s5 \<Rightarrow> Abrupt e s5
                       | Normal s5 \<Rightarrow>
                           (case displayAssumptions_script (assumptions data)
                                   (displayProjectionsTable_script projections s5) of
                              Abrupt e s7 \<Rightarrow> Abrupt e s7
                            | Normal s7 \<Rightarrow> Normal (s7\<lparr>resultsShown := True\<rparr>)))
      | _ \<Rightarrow> Abrupt (JsError TypeError ''data.model_id.substring is not a function'') s0)"

text \<open>The parameters of the search: the query, and each optional field only
  when it is filled in.\<close>

definition search_params :: "page \<Rightarrow> (string \<times> string) list" where
  "search_params s =
     [(''query'', queryInput s)]
     @ (if monthsInput s \<noteq> [] then [(''months'', monthsInput s)] else [])
     @ (if initialSalesPeopleInput s \<noteq> []
        then [(''initial_sales_people'', initialSalesPeopleInput s)] else [])
     @ (if marketingSpendInput s \<noteq> []
        then [(''marketing_spend_monthly'', marketingSpendInput s)] else [])
     @ (if largeCustomerRevenueInput s \<noteq> []
        then [(''large_customer_revenue_monthly'', largeCustomerRevenueInput s)] else [])"

definition handleQuerySubmit :: "fetch_result \<Rightarrow> page \<Rightarrow> page" where
  "handleQuerySubmit net s =
     (let params = search_params s;
          s1 = showLoading_script s;
          s2 = s1\<lparr>requests := requests s1 @ [Search params]\<rparr>
      in case net of
           Rejected e \<Rightarrow> showError_script (message e) s2
         | Response ok b \<Rightarrow>
             if \<not> ok then
               (case b of
                  Unparsable e \<Rightarrow> showError_script (message e) s2
                | Parsed errorData \<Rightarrow>
                    showError_script
                      (toString (or_else (detail errorData) (Str ''Failed to generate model''))) s2)
             else
               (case b of
                  Unparsable e \<Rightarrow> showError_script (message e) s2
                | Parsed data \<Rightarrow>
                    (case displayResults_script data (s2\<lparr>currentModelId := model_id data\<rparr>) of
                       Normal s' \<Rightarrow> s'
                     | Abrupt e s' \<Rightarrow> showError_script (message e) s')))"

section \<open>Notions used in the properties\<close>

text \<open>The page a step leaves behind, whether it returned or threw.\<close>

definition page_of :: "'s completion \<Rightarrow> 's" where
  "page_of c = (case c of Normal s \<Rightarrow> s | Abrupt e s \<Rightarrow> s)"

text \<open>A search fails when the call is rejected, when the body of the response
  cannot be read, or when the response is not ok. The error a failed search
  surfaces is \<open>silent\<close> when it was thrown by the collaborator with an empty
  message.\<close>

fun failed :: "fetch_result \<Rightarrow> bool" where
  "failed (Rejected e) = True"
| "failed (Response ok (Unparsable e)) = True"
| "failed (Response ok (Parsed d)) = (\<not> ok)"

fun silent :: "fetch_result \<Rightarrow> bool" where
  "silent (Rejected e) = (message e = [])"
| "silent (Response ok (Unparsable e)) = (message e = [])"
| "silent (Response ok (Parsed d)) = False"

text \<open>The message of the error a failed search ends with, where nothing is put
  in its place: the collaborator's own message when the call was rejected or the
  body could not be read, and otherwise the \<^verbatim>\<open>detail\<close> of the body, or the
  generic text \<open>g\<close> when the detail is falsy.\<close>

fun surfaced :: "string \<Rightarrow> fetch_result \<Rightarrow> string" where
  "surfaced g (Rejected e) = message e"
| "surfaced g (Response ok (Unparsable e)) = message e"
| "surfaced g (Response ok (Parsed d)) = toString (or_else (detail d) (Str g))"

text \<open>A numeric field that is absent or null.\<close>

definition missing :: "numfield \<Rightarrow> bool" where
  "missing x = (x = Absent \<or> x = IsNull)"

text \<open>What a label is to show at each position of its key: a space for an
  underscore, the upper-case form of the first character of every word (a word
  being a run of ASCII letters and digits), and the character itself
  elsewhere.\<close>

definition starts_word :: "string \<Rightarrow> nat \<Rightarrow> bool" where
  "starts_word s i =
     (is_word (s ! i) \<and> s ! i \<noteq> CHR ''_'' \<and>
      (i = 0 \<or> \<not> is_word (s ! (i - 1)) \<or> s ! (i - 1) = CHR ''_''))"

definition label_char :: "string \<Rightarrow> nat \<Rightarrow> char" where
  "label_char s i =
     (if s ! i = CHR ''_'' then CHR '' ''
      else if starts_word s i then toUpperCase (s ! i)
      else s ! i)"

text \<open>The label of a key in the words of the specification: every underscore
  replaced with a space, then the first character of every word made upper
  case, the words being what the spaces separate. A plain key has ASCII
  letters, digits, underscores and spaces only.\<close>

definition capitalize :: "string \<Rightarrow> string" where
  "capitalize w = (case w of [] \<Rightarrow> [] | c # cs \<Rightarrow> toUpperCase c # cs)"

fun split_words :: "string \<Rightarrow> string list" where
  "split_words [] = [[]]"
| "split_words (c # cs) =
     (if c = CHR '' '' then [] # split_words cs
      else (c # hd (split_words cs)) # tl (split_words cs))"

fun join_words :: "string list \<Rightarrow> string" where
  "join_words [] = []"
| "join_words [w] = w"
| "join_words (w # v # ws) = w @ '' '' @ join_words (v # ws)"

definition title_case :: "string \<Rightarrow> string" where
  "title_case s = join_words (map capitalize (split_words (replace_underscores s)))"

definition plain_key :: "string \<Rightarrow> bool" where
  "plain_key s = list_all (\<lambda>c. is_word c \<or> c = CHR '' '') s"



subsection \<open>Chart widgets over time\<close>

text \<open>The live widgets on the canvas of a slot.\<close>

definition live_on :: "page \<Rightarrow> slot \<Rightarrow> widget list" where
  "live_on s k = filter (\<lambda>w. canvas w = k) (instances s)"

text \<open>The class owns its widgets: every live widget is the one its slot
  holds, was numbered by the library before, and no two share an identity.\<close>

definition owned :: "page \<Rightarrow> bool" where
  "owned s =
     ((\<forall>w \<in> set (instances s). charts s (canvas w) = Some (wid w) \<and> wid w < nextChart s)
      \<and> distinct (map wid (instances s)))"

text \<open>The single effects of \<^verbatim>\<open>renderCharts\<close> on the registry, each with the
  page before and after it, in the order the three blocks perform them.\<close>

datatype event = Destroyed slot nat | Created slot nat

definition draw_steps :: "slot \<Rightarrow> chart_config \<Rightarrow> page \<Rightarrow> (page \<times> event \<times> page) list" where
  "draw_steps k cfg s =
     (if canvases s k \<and> chartLib s
      then (case charts s k of
              None \<Rightarrow> []
            | Some c \<Rightarrow> [(s, Destroyed k c, destroy c s)])
           @ [(release k s, Created k (nextChart s), new_Chart k cfg (release k s))]
      else [])"

definition renderCharts_steps :: "projection list \<Rightarrow> page \<Rightarrow> (page \<times> event \<times> page) list" where
  "renderCharts_steps projections s =
     (if length projections = 0 then []
      else
        let s1 = draw RevenueLine (line_config projections) s;
            s2 = draw RevenueBreakdown (bar_config projections) s1
        in draw_steps RevenueLine (line_config projections) s
           @ draw_steps RevenueBreakdown (bar_config projections) s1
           @ draw_steps RevenueMillion (million_config projections) s2)"

text \<open>A sequence of calls of \<^verbatim>\<open>renderCharts\<close>, one per list of projections.\<close>

fun renders :: "projection list list \<Rightarrow> page \<Rightarrow> page" where
  "renders [] s = s"
| "renders (ps # calls) s = renders calls (renderCharts ps s)"

fun renders_steps :: "projection list list \<Rightarrow> page \<Rightarrow> (page \<times> event \<times> page) list" where
  "renders_steps [] s = []"
| "renders_steps (ps # calls) s =
     renderCharts_steps ps s @ renders_steps calls (renderCharts ps s)"

text \<open>Steps that lead from one page to another, each starting where the one
  before it ended.\<close>

fun chain :: "page \<Rightarrow> (page \<times> event \<times> page) list \<Rightarrow> page \<Rightarrow> bool" where
  "chain s [] t = (s = t)"
| "chain s ((a, e, b) # steps) t = (s = a \<and> chain b steps t)"

definition step_ok :: "page \<times> event \<times> page \<Rightarrow> bool" where
  "step_ok st =
     (case st of
        (pre, e, post) \<Rightarrow>
          owned pre \<and> owned post \<and>
          (case e of Created k c \<Rightarrow> live_on pre k = [] | Destroyed k c \<Rightarrow> True))"

subsection \<open>Sample data\<close>

definition bare :: projection where
  "bare = \<lparr>month = Number 1, sales_people = Absent, large_customers_cumulative = Absent,
           small_customers_cumulative = IsNull, large_customers_acquired = Absent,
           small_customers_acquired = Absent, large_customer_revenue = IsNull,
           small_customer_revenue = Absent, total_revenue = Absent, marketing_spend = Absent\<rparr>"

definition full :: projection where
  "full = \<lparr>month = Number 2, sales_people = Number 3, large_customers_cumulative = Number 1200,
           small_customers_cumulative = Number 40, large_customers_acquired = Number 5,
           small_customers_acquired = Number 7, large_customer_revenue = Number 1000000,
           small_customer_revenue = Number 234567, total_revenue = Number 1234567,
           marketing_spend = Number 200000\<rparr>"

definition sample :: model where
  "sample = \<lparr>model_id = Str ''a1b2c3d4e5'', monthly_projections = Some [bare, full],
             revenue_drivers = Some [], assumptions = Some [], assumptions_used = Some [],
             detail = Undefined\<rparr>"

definition refusal :: model where
  "refusal = \<lparr>model_id = Undefined, monthly_projections = None, revenue_drivers = None,
              assumptions = None, assumptions_used = None, detail = Str ''No such scenario''\<rparr>"

definition asking :: page where
  "asking = initial\<lparr>queryInput := ''  forecast 12 months ''\<rparr>"

definition blank :: page where
  "blank = initial\<lparr>queryInput := [CHR 0x20, CHR 0x09, CHR 0x20]\<rparr>"

section \<open>Properties\<close>

subsection \<open>Formatting\<close>

lemma digits_0: "digits 0 = ''0''"
  by (simp add: digits.simps digit_def)

lemma digits_not_Nil: "digits n \<noteq> []"
  by (subst digits.simps) simp

lemma number_toString_not_Nil: "number_toString n \<noteq> []"
  by (simp add: number_toString_def digits_not_Nil)

lemma group3_short: "length ds \<le> 3 \<Longrightarrow> group3 ds = ds"
  by (simp add: group3.simps)

lemma formatNumber_0: "formatNumber 0 = ''0''"
  by (simp add: formatNumber_def digits_0 group3_short)

lemma formatCurrency_0: "formatCurrency (Some 0) = ''$0''"
  by (simp add: formatCurrency_def digits_0 group3_short)

lemma formatCurrency_example: "formatCurrency (Some 1234567) = ''$1,234,567''"
  by (simp add: formatCurrency_def digits.simps digit_def group3.simps)

lemma truthy_toString: "truthy v \<Longrightarrow> toString v \<noteq> []"
  by (cases v) (simp_all add: number_toString_not_Nil)

lemma name_of_not_Nil: "name_of n \<noteq> []"
  by (cases n) simp_all

lemma length_capitalize_words: "length (capitalize_words p s) = length s"
  by (induction s arbitrary: p) simp_all

lemma capitalize_words_nth:
  "i < length s \<Longrightarrow>
   capitalize_words p s ! i =
     (if is_word (s ! i) \<and> \<not> (if i = 0 then p else is_word (s ! (i - 1)))
      then toUpperCase (s ! i) else s ! i)"
proof (induction s arbitrary: p i)
  case Nil
  then show ?case by simp
next
  case (Cons c cs)
  show ?case
  proof (cases i)
    case 0
    then show ?thesis by simp
  next
    case (Suc j)
    with Cons.prems have "j < length cs" by simp
    from Cons.IH [OF this, of "is_word c"] Suc show ?thesis
      by (cases j) simp_all
  qed
qed

lemma length_replace_underscores: "length (replace_underscores s) = length s"
  by (simp add: replace_underscores_def)

lemma not_word_space: "\<not> is_word CHR '' ''"
  by (simp add: is_word_def lower_case_def upper_case_def)

lemma word_underscore: "is_word CHR ''_''"
  by (simp add: is_word_def lower_case_def upper_case_def)

lemma formatted_nth:
  assumes "i < length s"
  shows "capitalize_words False (replace_underscores s) ! i = label_char s i"
proof -
  let ?r = "replace_underscores s"
  have len: "i < length ?r" using assms by (simp add: replace_underscores_def)
  have ri: "?r ! i = (if s ! i = CHR ''_'' then CHR '' '' else s ! i)"
    using assms by (simp add: replace_underscores_def)
  have rp: "i \<noteq> 0 \<Longrightarrow>
      ?r ! (i - 1) = (if s ! (i - 1) = CHR ''_'' then CHR '' '' else s ! (i - 1))"
    using assms by (simp add: replace_underscores_def)
  show ?thesis
    unfolding capitalize_words_nth [OF len] label_char_def starts_word_def
    using ri rp not_word_space word_underscore by (cases "i = 0") auto
qed

lemma formatText_Str: "formatText (Str s) = capitalize_words False (replace_underscores s)"
  by (cases s) (simp_all add: formatText_def or_else_def replace_underscores_def)

lemma formatText_falsy: "\<not> truthy v \<Longrightarrow> formatText v = []"
  by (simp add: formatText_def or_else_def replace_underscores_def)

lemma formatText_truthy: "truthy v \<Longrightarrow> formatText v = formatText (Str (toString v))"
  by (simp add: formatText_Str) (simp add: formatText_def or_else_def)

lemma formatText_example:
  "formatText (Str ''large_customer_revenue'') = ''Large Customer Revenue''"
  by (simp add: formatText_def or_else_def replace_underscores_def is_word_def
        toUpperCase_def lower_case_def upper_case_def)

lemma formatText_object_Inr: "formatText_object (Inr t) = Inr (formatText (Str t))"
  by (simp add: formatText_object_def formatText_Str)

lemma formatText_object_Inl: "formatText_object (Inl e) = Inl e"
  by (simp add: formatText_object_def)

lemma formatLabel_throws: "isl (formatLabel v) = (\<forall>s. v \<noteq> Str s)"
  by (cases v) simp_all

lemma formatText_v1_throws: "isl (formatText_v1 v) = (\<forall>s. v \<noteq> Str s)"
  by (cases v) simp_all

text \<open>On a plain key the two replacements give the label of the specification.\<close>

lemma capitalize_Nil: "capitalize [] = []"
  by (simp add: capitalize_def)

lemma capitalize_Cons: "capitalize (c # w) = toUpperCase c # w"
  by (simp add: capitalize_def)

lemma split_words_not_Nil: "split_words s \<noteq> []"
  by (induction s) simp_all

lemma join_words_Cons: "join_words ((c # w) # ws) = c # join_words (w # ws)"
  by (cases ws) simp_all

lemma join_words_Nil_Cons: "ws \<noteq> [] \<Longrightarrow> join_words ([] # ws) = CHR '' '' # join_words ws"
  by (cases ws) simp_all

lemma map_capitalize_split:
  "map capitalize (split_words s)
   = capitalize (hd (split_words s)) # map capitalize (tl (split_words s))"
  using split_words_not_Nil [of s] by (cases "split_words s") simp_all

lemma capitalize_words_split:
  assumes "list_all (\<lambda>c. is_word c \<or> c = CHR '' '') r"
  shows "capitalize_words p r =
     join_words ((if p then hd (split_words r) else capitalize (hd (split_words r)))
                 # map capitalize (tl (split_words r)))"
  using assms
proof (induction r arbitrary: p)
  case Nil
  show ?case by (simp add: capitalize_Nil)
next
  case (Cons c cs)
  then have rest: "list_all (\<lambda>c. is_word c \<or> c = CHR '' '') cs" by simp
  show ?case
  proof (cases "c = CHR '' ''")
    case True
    have "capitalize_words p (c # cs) = CHR '' '' # capitalize_words False cs"
      using True not_word_space by simp
    also have "capitalize_words False cs = join_words (map capitalize (split_words cs))"
      using Cons.IH [OF rest, of False] by (simp add: map_capitalize_split [symmetric])
    also have "CHR '' '' # join_words (map capitalize (split_words cs))
        = join_words ([] # map capitalize (split_words cs))"
      by (rule join_words_Nil_Cons [symmetric]) (simp add: split_words_not_Nil)
    finally show ?thesis using True by (simp add: capitalize_Nil)
  next
    case False
    with Cons.prems have w: "is_word c" by simp
    from Cons.IH [OF rest, of True]
    have "capitalize_words True cs
        = join_words (hd (split_words cs) # map capitalize (tl (split_words cs)))"
      by simp
    with w False show ?thesis by (simp add: join_words_Cons capitalize_Cons)
  qed
qed

lemma plain_replace_underscores:
  "plain_key s \<Longrightarrow> list_all (\<lambda>c. is_word c \<or> c = CHR '' '') (replace_underscores s)"
  by (induction s) (simp_all add: plain_key_def replace_underscores_def)

lemma formatText_title_case: "plain_key s \<Longrightarrow> formatText (Str s) = title_case s"
  unfolding formatText_Str title_case_def
  using capitalize_words_split [OF plain_replace_underscores, of s False]
  by (simp add: map_capitalize_split [symmetric])

text \<open>
  C5, as amended. On every string, \<^verbatim>\<open>formatText\<close> of \<^verbatim>\<open>app.js\<close> keeps the length,
  puts a space for every underscore, the upper-case form for the first character
  of every run of ASCII letters and digits, and leaves the rest; on a key of
  ASCII letters, digits, underscores and spaces that is the label of the
  specification: the words between underscores and spaces, each with its first
  character in upper case, joined by single spaces. \<^verbatim>\<open>formatLabel\<close> of \<^verbatim>\<open>script.js\<close>
  and \<^verbatim>\<open>formatText\<close> of the earlier class return the same text on a string and
  throw on every other primitive. \<^verbatim>\<open>formatText\<close> of \<^verbatim>\<open>app.js\<close> returns on every
  primitive: the falsy ones (\<^verbatim>\<open>undefined\<close>, \<^verbatim>\<open>null\<close>, \<^verbatim>\<open>false\<close>, \<^verbatim>\<open>0\<close>, the
  empty string) give the empty string, and any other is formatted as the string
  \<^verbatim>\<open>String\<close> makes of it. On an object it formats the text \<^verbatim>\<open>String\<close> makes of
  the object, and throws the error of that conversion when it throws.
\<close>

theorem formatText_strings_and_falsy:
  "length (formatText (Str s)) = length s
   \<and> (\<forall>i<length s. formatText (Str s) ! i = label_char s i)
   \<and> (plain_key s \<longrightarrow> formatText (Str s) = title_case s)
   \<and> formatLabel (Str s) = Inr (formatText (Str s))
   \<and> formatText_v1 (Str s) = Inr (formatText (Str s))
   \<and> isl (formatLabel v) = (\<forall>s. v \<noteq> Str s)
   \<and> isl (formatText_v1 v) = (\<forall>s. v \<noteq> Str s)
   \<and> (\<not> truthy v \<longrightarrow> formatText v = [])
   \<and> (truthy v \<longrightarrow> formatText v = formatText (Str (toString v)))
   \<and> formatText_object (Inr t) = Inr (formatText (Str t))
   \<and> formatText_object (Inl e) = Inl e
   \<and> formatText (Str ''large_customer_revenue'') = ''Large Customer Revenue''"
proof -
  have "length (formatText (Str s)) = length s"
    by (simp add: formatText_Str length_capitalize_words length_replace_underscores)
  moreover have "\<forall>i<length s. formatText (Str s) ! i = label_char s i"
    by (simp add: formatText_Str formatted_nth)
  moreover have "formatLabel (Str s) = Inr (formatText (Str s))"
    "formatText_v1 (Str s) = Inr (formatText (Str s))"
    by (simp_all add: formatText_Str)
  ultimately show ?thesis
    using formatText_title_case [of s] formatLabel_throws [of v] formatText_v1_throws [of v]
      formatText_falsy [of v] formatText_truthy [of v] formatText_object_Inr [of t]
      formatText_object_Inl [of e] formatText_example
    by blast
qed

theorem formatText_strings_and_falsy_witness:
  "formatText (Str ''net_new 2x'') ! 4 = CHR ''N''
   \<and> formatText (Str ''net_new 2x'') ! 3 = CHR '' ''
   \<and> plain_key ''net_new 2x''
   \<and> formatText (Str ''net_new 2x'') = ''Net New 2x''
   \<and> formatLabel (Str ''net_new 2x'') = Inr ''Net New 2x''
   \<and> formatText Null = []
   \<and> isl (formatLabel Null)
   \<and> formatText (Bool True) = formatText (Str ''true'')
   \<and> formatText_object (Inr ''[object Object]'') = Inr ''[Object Object]''"
proof -
  note t = formatText_strings_and_falsy [of "''net_new 2x''" Null "''[object Object]''"]
  note u = formatText_strings_and_falsy [of "''net_new 2x''" "Bool True"]
  from t have n: "\<forall>i<length ''net_new 2x''. formatText (Str ''net_new 2x'') ! i = label_char ''net_new 2x'' i"
    by blast
  from n [rule_format, of 4] have "formatText (Str ''net_new 2x'') ! 4 = CHR ''N''"
    by (simp add: label_char_def starts_word_def is_word_def toUpperCase_def
          lower_case_def upper_case_def)
  moreover from n [rule_format, of 3] have "formatText (Str ''net_new 2x'') ! 3 = CHR '' ''"
    by (simp add: label_char_def)
  moreover have p: "plain_key ''net_new 2x''"
    by (simp add: plain_key_def is_word_def lower_case_def upper_case_def)
  moreover have c: "title_case ''net_new 2x'' = ''Net New 2x''"
    by (simp add: title_case_def replace_underscores_def capitalize_def toUpperCase_def
          lower_case_def upper_case_def)
  from t p c have l: "formatText (Str ''net_new 2x'') = ''Net New 2x''" by simp
  moreover from t l have "formatLabel (Str ''net_new 2x'') = Inr ''Net New 2x''"
    by simp
  moreover from t have "formatText Null = []" by simp
  moreover from t have "isl (formatLabel Null)" by simp
  moreover from u have "formatText (Bool True) = formatText (Str ''true'')" by simp
  moreover have "formatText (Str ''[object Object]'') = ''[Object Object]''"
    by (simp add: formatText_def or_else_def replace_underscores_def is_word_def toUpperCase_def
          lower_case_def upper_case_def)
  with t have "formatText_object (Inr ''[object Object]'') = Inr ''[Object Object]''"
    by simp
  ultimately show ?thesis by blast
qed

theorem formatText_number_not_empty:
  "formatText (Num 5) = ''5'' \<and> formatText (Bool True) = ''True''
   \<and> formatLabel (Num 5) = Inl (JsError TypeError ''key.replace is not a function'')
   \<and> formatText_v1 (Num 5) = Inl (JsError TypeError ''text.replace is not a function'')
   \<and> formatText_object (Inl (JsError TypeError ''Cannot convert object to primitive value''))
       = Inl (JsError TypeError ''Cannot convert object to primitive value'')
   \<and> formatText (Str [CHR 0xC3, CHR 0xA9, CHR ''l'', CHR ''a'', CHR ''n''])
       = [CHR 0xC3, CHR 0xA9, CHR ''L'', CHR ''a'', CHR ''n'']"
  by (simp add: formatText_def formatText_object_def or_else_def replace_underscores_def
        is_word_def toUpperCase_def lower_case_def upper_case_def number_toString_def
        digits.simps digit_def)

subsection \<open>Table and cards\<close>

lemma foldl_tbody:
  "foldl (\<lambda>s p. s\<lparr>tbody := tbody s @ [f p]\<rparr>) s ps = s\<lparr>tbody := tbody s @ map f ps\<rparr>"
  by (induction ps arbitrary: s) simp_all

lemma displayProjectionsTable_eq:
  "displayProjectionsTable ps s = s\<lparr>tbody := map projection_row ps\<rparr>"
  by (simp add: displayProjectionsTable_def foldl_tbody)

lemma displayProjectionsTable_v1_eq:
  "displayProjectionsTable_v1 ps s = s\<lparr>tbody := map projection_row_v1 ps\<rparr>"
  by (simp add: displayProjectionsTable_v1_def foldl_tbody)

lemma displayProjectionsTable_script_eq:
  "displayProjectionsTable_script ps s = s\<lparr>tbody := map projection_row_script ps\<rparr>"
  by (simp add: displayProjectionsTable_script_def foldl_tbody)

text \<open>The earlier class writes the two customer counts another way, with the
  same text.\<close>

lemma group3_not_Nil: "ds \<noteq> [] \<Longrightarrow> group3 ds \<noteq> []"
  by (subst group3.simps) simp

lemma formatNumber_not_Nil: "formatNumber n \<noteq> []"
  by (simp add: formatNumber_def group3_not_Nil digits_not_Nil)

lemma locale_or_zero_eq: "locale_or_zero x = formatNumber (coalesce_zero x)"
  by (cases x) (simp_all add: locale_or_zero_def formatNumber_not_Nil formatNumber_0)

lemma projection_row_v1_eq: "projection_row_v1 p = projection_row p"
  by (simp add: projection_row_v1_def projection_row_def locale_or_zero_eq)

text \<open>Different numbers have different numerals, so the month cells tell the
  rows apart.\<close>

lemma digit_inj: "a < 10 \<Longrightarrow> b < 10 \<Longrightarrow> digit a = digit b \<Longrightarrow> a = b"
proof -
  assume a: "a < 10" and b: "b < 10" and e: "digit a = digit b"
  have d: "distinct ''0123456789''" by simp
  from a b have "a < length ''0123456789''" "b < length ''0123456789''" by simp_all
  with d e a b show "a = b" by (simp add: digit_def nth_eq_iff_index_eq)
qed

lemma digits_inj: "digits m = digits n \<Longrightarrow> m = n"
proof (induction m arbitrary: n rule: digits.induct)
  case (1 m)
  show ?case
  proof (cases "m < 10")
    case small: True
    then have dm: "digits m = [digit m]" by (subst digits.simps) simp
    show ?thesis
    proof (cases "n < 10")
      case True
      then have "digits n = [digit n]" by (subst digits.simps) simp
      with dm "1.prems" small True show ?thesis by (simp add: digit_inj)
    next
      case False
      then have "digits n = digits (n div 10) @ [digit (n mod 10)]"
        by (subst digits.simps) simp
      with dm "1.prems" digits_not_Nil [of "n div 10"] show ?thesis by simp
    qed
  next
    case large: False
    then have dm: "digits m = digits (m div 10) @ [digit (m mod 10)]"
      by (subst digits.simps) simp
    show ?thesis
    proof (cases "n < 10")
      case True
      then have "digits n = [digit n]" by (subst digits.simps) simp
      with dm "1.prems" digits_not_Nil [of "m div 10"] show ?thesis by simp
    next
      case False
      then have "digits n = digits (n div 10) @ [digit (n mod 10)]"
        by (subst digits.simps) simp
      with dm "1.prems" have e: "digits (m div 10) = digits (n div 10)"
        and l: "digit (m mod 10) = digit (n mod 10)"
        by simp_all
      from "1.IH" [OF large e] have "m div 10 = n div 10" .
      moreover from l have "m mod 10 = n mod 10" by (intro digit_inj) simp_all
      ultimately show ?thesis by (metis div_mult_mod_eq)
    qed
  qed
qed

lemma month_text: "field_toString (Number (int (Suc i))) = digits (Suc i)"
proof -
  have "\<not> int (Suc i) < 0" by simp
  then show ?thesis by (simp only: field_toString.simps number_toString_def if_False nat_int)
qed

lemma distinct_numerals: "distinct (map (\<lambda>i. pre @ digits (Suc i)) [0..<n])"
  by (auto simp: distinct_map inj_on_def dest: digits_inj)

lemma months_in_order:
  assumes "\<forall>i<length ps. month (ps ! i) = Number (int (Suc i))"
  shows "map hd (map projection_row ps) = map (\<lambda>i. ''Month '' @ digits (Suc i)) [0..<length ps]"
    and "map hd (map projection_row_script ps) = map (\<lambda>i. [] @ digits (Suc i)) [0..<length ps]"
proof -
  have cell: "hd (projection_row (ps ! i)) = ''Month '' @ digits (Suc i)"
    "hd (projection_row_script (ps ! i)) = [] @ digits (Suc i)" if "i < length ps" for i
  proof -
    from assms that have "month (ps ! i) = Number (int (Suc i))" by blast
    then show "hd (projection_row (ps ! i)) = ''Month '' @ digits (Suc i)"
      "hd (projection_row_script (ps ! i)) = [] @ digits (Suc i)"
      by (simp_all only: projection_row_def projection_row_script_def list.sel month_text
            append_Nil)
  qed
  show "map hd (map projection_row ps)
      = map (\<lambda>i. ''Month '' @ digits (Suc i)) [0..<length ps]"
    by (rule nth_equalityI) (simp_all add: cell(1))
  show "map hd (map projection_row_script ps)
      = map (\<lambda>i. [] @ digits (Suc i)) [0..<length ps]"
    by (rule nth_equalityI) (simp_all add: cell(2))
qed

lemma distinct_rows:
  assumes "\<forall>i<length ps. month (ps ! i) = Number (int (Suc i))"
  shows "distinct (map projection_row ps)" and "distinct (map projection_row_script ps)"
proof -
  have "distinct (map hd (map projection_row ps))"
    unfolding months_in_order(1) [OF assms] by (rule distinct_numerals)
  then show "distinct (map projection_row ps)" by (simp only: distinct_map)
  have "distinct (map hd (map projection_row_script ps))"
    unfolding months_in_order(2) [OF assms] by (rule distinct_numerals)
  then show "distinct (map projection_row_script ps)" by (simp only: distinct_map)
qed

text \<open>
  C2. Whatever the table body held before, after \<^verbatim>\<open>displayProjectionsTable\<close> it
  has as many rows as there are projections, and row \<open>i\<close> shows projection
  \<open>i\<close>: in \<^verbatim>\<open>app.js\<close> and in the earlier class its month after the word
  \<^verbatim>\<open>Month\<close>, its sales people, its two cumulative customer counts and its three
  revenues; in \<^verbatim>\<open>script.js\<close> its month, sales people, the customers acquired and
  the revenue of either size, the marketing spend and the total revenue. So
  when the projections are numbered by their months from 1 on, the month cells
  count from 1 to the number of projections, and no two rows are the same.
\<close>

theorem projections_table_rows:
  "length (tbody (displayProjectionsTable ps s)) = length ps
   \<and> (\<forall>i<length ps.
         tbody (displayProjectionsTable ps s) ! i =
           [''Month '' @ field_toString (month (ps ! i)),
            field_toString (sales_people (ps ! i)) @ '' people'',
            formatNumber (coalesce_zero (large_customers_cumulative (ps ! i))),
            formatNumber (coalesce_zero (small_customers_cumulative (ps ! i))),
            formatCurrency (Some (or_zero (large_customer_revenue (ps ! i)))),
            formatCurrency (Some (or_zero (small_customer_revenue (ps ! i)))),
            formatCurrency (Some (or_zero (total_revenue (ps ! i))))])
   \<and> tbody (displayProjectionsTable_v1 ps s) = tbody (displayProjectionsTable ps s)
   \<and> length (tbody (displayProjectionsTable_script ps s)) = length ps
   \<and> (\<forall>i<length ps.
         tbody (displayProjectionsTable_script ps s) ! i =
           [field_toString (month (ps ! i)),
            field_toString (sales_people (ps ! i)),
            field_toString (large_customers_acquired (ps ! i)),
            formatCurrency (toNumber (large_customer_revenue (ps ! i))),
            field_toString (small_customers_acquired (ps ! i)),
            formatCurrency (toNumber (small_customer_revenue (ps ! i))),
            formatCurrency (toNumber (marketing_spend (ps ! i))),
            formatCurrency (toNumber (total_revenue (ps ! i)))])
   \<and> ((\<forall>i<length ps. month (ps ! i) = Number (int (Suc i))) \<longrightarrow>
         map hd (tbody (displayProjectionsTable ps s))
           = map (\<lambda>i. ''Month '' @ digits (Suc i)) [0..<length ps]
       \<and> map hd (tbody (displayProjectionsTable_script ps s))
           = map (\<lambda>i. digits (Suc i)) [0..<length ps]
       \<and> distinct (tbody (displayProjectionsTable ps s))
       \<and> distinct (tbody (displayProjectionsTable_script ps s)))"
proof -
  have v1: "tbody (displayProjectionsTable_v1 ps s) = tbody (displayProjectionsTable ps s)"
    by (simp add: displayProjectionsTable_eq displayProjectionsTable_v1_eq projection_row_v1_eq)
  have rows: "\<forall>i<length ps.
         tbody (displayProjectionsTable ps s) ! i =
           [''Month '' @ field_toString (month (ps ! i)),
            field_toString (sales_people (ps ! i)) @ '' people'',
            formatNumber (coalesce_zero (large_customers_cumulative (ps ! i))),
            formatNumber (coalesce_zero (small_customers_cumulative (ps ! i))),
            formatCurrency (Some (or_zero (large_customer_revenue (ps ! i)))),
            formatCurrency (Some (or_zero (small_customer_revenue (ps ! i)))),
            formatCurrency (Some (or_zero (total_revenue (ps ! i))))]"
    by (simp add: displayProjectionsTable_eq projection_row_def)
  have rows_script: "\<forall>i<length ps.
         tbody (displayProjectionsTable_script ps s) ! i =
           [field_toString (month (ps ! i)),
            field_toString (sales_people (ps ! i)),
            field_toString (large_customers_acquired (ps ! i)),
            formatCurrency (toNumber (large_customer_revenue (ps ! i))),
            field_toString (small_customers_acquired (ps ! i)),
            formatCurrency (toNumber (small_customer_revenue (ps ! i))),
            formatCurrency (toNumber (marketing_spend (ps ! i))),
            formatCurrency (toNumber (total_revenue (ps ! i)))]"
    by (simp add: displayProjectionsTable_script_eq projection_row_script_def)
  have len: "length (tbody (displayProjectionsTable ps s)) = length ps"
    "length (tbody (displayProjectionsTable_script ps s)) = length ps"
    by (simp_all add: displayProjectionsTable_eq displayProjectionsTable_script_eq)
  have ord: "(\<forall>i<length ps. month (ps ! i) = Number (int (Suc i))) \<longrightarrow>
         map hd (tbody (displayProjectionsTable ps s))
           = map (\<lambda>i. ''Month '' @ digits (Suc i)) [0..<length ps]
       \<and> map hd (tbody (displayProjectionsTable_script ps s))
           = map (\<lambda>i. digits (Suc i)) [0..<length ps]
       \<and> distinct (tbody (displayProjectionsTable ps s))
       \<and> distinct (tbody (displayProjectionsTable_script ps s))"
  proof
    assume m: "\<forall>i<length ps. month (ps ! i) = Number (int (Suc i))"
    from months_in_order [OF m] distinct_rows [OF m]
    show "map hd (tbody (displayProjectionsTable ps s))
           = map (\<lambda>i. ''Month '' @ digits (Suc i)) [0..<length ps]
       \<and> map hd (tbody (displayProjectionsTable_script ps s))
           = map (\<lambda>i. digits (Suc i)) [0..<length ps]
       \<and> distinct (tbody (displayProjectionsTable ps s))
       \<and> distinct (tbody (displayProjectionsTable_script ps s))"
      by (simp add: displayProjectionsTable_eq displayProjectionsTable_script_eq)
  qed
  from len(1) rows v1 len(2) rows_script ord show ?thesis by blast
qed

theorem projections_table_rows_witness:
  "month bare = Number 1 \<and> month full = Number 2
   \<and> tbody (displayProjectionsTable [bare, full] (initial\<lparr>tbody := [[''stale'']]\<rparr>))
       = [[''Month 1'', ''undefined people'', ''0'', ''0'', ''$0'', ''$0'', ''$0''],
          [''Month 2'', ''3 people'', ''1,200'', ''40'', ''$1,000,000'', ''$234,567'',
           ''$1,234,567'']]
   \<and> tbody (displayProjectionsTable_v1 [bare, full] (initial\<lparr>tbody := [[''stale'']]\<rparr>))
       = [[''Month 1'', ''undefined people'', ''0'', ''0'', ''$0'', ''$0'', ''$0''],
          [''Month 2'', ''3 people'', ''1,200'', ''40'', ''$1,000,000'', ''$234,567'',
           ''$1,234,567'']]
   \<and> tbody (displayProjectionsTable_script [bare, full] (initial\<lparr>tbody := [[''stale'']]\<rparr>))
       = [[''1'', ''undefined'', ''undefined'', ''$0'', ''undefined'', ''$NaN'', ''$NaN'',
           ''$NaN''],
          [''2'', ''3'', ''5'', ''$1,000,000'', ''7'', ''$234,567'', ''$200,000'',
           ''$1,234,567'']]
   \<and> map hd (tbody (displayProjectionsTable [bare, full] (initial\<lparr>tbody := [[''stale'']]\<rparr>)))
       = [''Month 1'', ''Month 2'']
   \<and> distinct (tbody (displayProjectionsTable [bare, full] (initial\<lparr>tbody := [[''stale'']]\<rparr>)))"
proof -
  let ?s = "initial\<lparr>tbody := [[''stale'']]\<rparr>"
  note t = projections_table_rows [of "[bare, full]" ?s]
  have m: "month bare = Number 1" "month full = Number 2"
    by (simp_all add: bare_def full_def)
  then have o: "\<forall>i<length [bare, full]. month ([bare, full] ! i) = Number (int (Suc i))"
    by (auto simp: less_Suc_eq)
  have b: "[''Month '' @ field_toString (month bare),
            field_toString (sales_people bare) @ '' people'',
            formatNumber (coalesce_zero (large_customers_cumulative bare)),
            formatNumber (coalesce_zero (small_customers_cumulative bare)),
            formatCurrency (Some (or_zero (large_customer_revenue bare))),
            formatCurrency (Some (or_zero (small_customer_revenue bare))),
            formatCurrency (Some (or_zero (total_revenue bare)))]
      = [''Month 1'', ''undefined people'', ''0'', ''0'', ''$0'', ''$0'', ''$0'']"
    by (simp add: bare_def number_toString_def formatNumber_def formatCurrency_def
          digits.simps digit_def group3.simps)
  have f: "[''Month '' @ field_toString (month full),
            field_toString (sales_people full) @ '' people'',
            formatNumber (coalesce_zero (large_customers_cumulative full)),
            formatNumber (coalesce_zero (small_customers_cumulative full)),
            formatCurrency (Some (or_zero (large_customer_revenue full))),
            formatCurrency (Some (or_zero (small_customer_revenue full))),
            formatCurrency (Some (or_zero (total_revenue full)))]
      = [''Month 2'', ''3 people'', ''1,200'', ''40'', ''$1,000,000'', ''$234,567'',
         ''$1,234,567'']"
    by (simp add: full_def number_toString_def formatNumber_def formatCurrency_def
          digits.simps digit_def group3.simps)
  have bs: "[field_toString (month bare),
            field_toString (sales_people bare),
            field_toString (large_customers_acquired bare),
            formatCurrency (toNumber (large_customer_revenue bare)),
            field_toString (small_customers_acquired bare),
            formatCurrency (toNumber (small_customer_revenue bare)),
            formatCurrency (toNumber (marketing_spend bare)),
            formatCurrency (toNumber (total_revenue bare))]
      = [''1'', ''undefined'', ''undefined'', ''$0'', ''undefined'', ''$NaN'', ''$NaN'', ''$NaN'']"
    by (simp add: bare_def number_toString_def formatCurrency_def digits.simps digit_def
          group3.simps)
  have fs: "[field_toString (month full),
            field_toString (sales_people full),
            field_toString (large_customers_acquired full),
            formatCurrency (toNumber (large_customer_revenue full)),
            field_toString (small_customers_acquired full),
            formatCurrency (toNumber (small_customer_revenue full)),
            formatCurrency (toNumber (marketing_spend full)),
            formatCurrency (toNumber (total_revenue full))]
      = [''2'', ''3'', ''5'', ''$1,000,000'', ''7'', ''$234,567'', ''$200,000'', ''$1,234,567'']"
    by (simp add: full_def number_toString_def formatCurrency_def digits.simps digit_def
          group3.simps)
  from t have la: "length (tbody (displayProjectionsTable [bare, full] ?s)) = length [bare, full]"
    and ra: "\<forall>i<length [bare, full].
         tbody (displayProjectionsTable [bare, full] ?s) ! i =
           [''Month '' @ field_toString (month ([bare, full] ! i)),
            field_toString (sales_people ([bare, full] ! i)) @ '' people'',
            formatNumber (coalesce_zero (large_customers_cumulative ([bare, full] ! i))),
            formatNumber (coalesce_zero (small_customers_cumulative ([bare, full] ! i))),
            formatCurrency (Some (or_zero (large_customer_revenue ([bare, full] ! i)))),
            formatCurrency (Some (or_zero (small_customer_revenue ([bare, full] ! i)))),
            formatCurrency (Some (or_zero (total_revenue ([bare, full] ! i))))]"
    and v1: "tbody (displayProjectionsTable_v1 [bare, full] ?s)
         = tbody (displayProjectionsTable [bare, full] ?s)"
    and ls: "length (tbody (displayProjectionsTable_script [bare, full] ?s)) = length [bare, full]"
    and rs: "\<forall>i<length [bare, full].
         tbody (displayProjectionsTable_script [bare, full] ?s) ! i =
           [field_toString (month ([bare, full] ! i)),
            field_toString (sales_people ([bare, full] ! i)),
            field_toString (large_customers_acquired ([bare, full] ! i)),
            formatCurrency (toNumber (large_customer_revenue ([bare, full] ! i))),
            field_toString (small_customers_acquired ([bare, full] ! i)),
            formatCurrency (toNumber (small_customer_revenue ([bare, full] ! i))),
            formatCurrency (toNumber (marketing_spend ([bare, full] ! i))),
            formatCurrency (toNumber (total_revenue ([bare, full] ! i)))]"
    by blast+
  from t o have d: "distinct (tbody (displayProjectionsTable [bare, full] ?s))" by blast
  have ta: "tbody (displayProjectionsTable [bare, full] ?s)
       = [[''Month 1'', ''undefined people'', ''0'', ''0'', ''$0'', ''$0'', ''$0''],
          [''Month 2'', ''3 people'', ''1,200'', ''40'', ''$1,000,000'', ''$234,567'',
           ''$1,234,567'']]"
  proof (rule nth_equalityI)
    show "length (tbody (displayProjectionsTable [bare, full] ?s))
        = length [[''Month 1'', ''undefined people'', ''0'', ''0'', ''$0'', ''$0'', ''$0''],
          [''Month 2'', ''3 people'', ''1,200'', ''40'', ''$1,000,000'', ''$234,567'',
           ''$1,234,567'']]"
      using la by simp
  next
    fix i
    assume "i < length (tbody (displayProjectionsTable [bare, full] ?s))"
    with la have "i = 0 \<or> i = 1" by auto
    then show "tbody (displayProjectionsTable [bare, full] ?s) ! i
        = [[''Month 1'', ''undefined people'', ''0'', ''0'', ''$0'', ''$0'', ''$0''],
          [''Month 2'', ''3 people'', ''1,200'', ''40'', ''$1,000,000'', ''$234,567'',
           ''$1,234,567'']] ! i"
      using ra [rule_format, of 0] ra [rule_format, of 1] b f by auto
  qed
  have ts: "tbody (displayProjectionsTable_script [bare, full] ?s)
       = [[''1'', ''undefined'', ''undefined'', ''$0'', ''undefined'', ''$NaN'', ''$NaN'',
           ''$NaN''],
          [''2'', ''3'', ''5'', ''$1,000,000'', ''7'', ''$234,567'', ''$200,000'',
           ''$1,234,567'']]"
  proof (rule nth_equalityI)
    show "length (tbody (displayProjectionsTable_script [bare, full] ?s))
        = length [[''1'', ''undefined'', ''undefined'', ''$0'', ''undefined'', ''$NaN'', ''$NaN'',
           ''$NaN''],
          [''2'', ''3'', ''5'', ''$1,000,000'', ''7'', ''$234,567'', ''$200,000'',
           ''$1,234,567'']]"
      using ls by simp
  next
    fix i
    assume "i < length (tbody (displayProjectionsTable_script [bare, full] ?s))"
    with ls have "i = 0 \<or> i = 1" by auto
    then show "tbody (displayProjectionsTable_script [bare, full] ?s) ! i
        = [[''1'', ''undefined'', ''undefined'', ''$0'', ''undefined'', ''$NaN'', ''$NaN'',
           ''$NaN''],
          [''2'', ''3'', ''5'', ''$1,000,000'', ''7'', ''$234,567'', ''$200,000'',
           ''$1,234,567'']] ! i"
      using rs [rule_format, of 0] rs [rule_format, of 1] bs fs by auto
  qed
  from ta have "map hd (tbody (displayProjectionsTable [bare, full] ?s))
       = [''Month 1'', ''Month 2'']"
    by simp
  with m ta ts v1 d show ?thesis by simp
qed

text \<open>
  C6, as amended. In the class-based variants, a projection whose
  \<^verbatim>\<open>large_customers_cumulative\<close>, \<^verbatim>\<open>small_customers_cumulative\<close>,
  \<^verbatim>\<open>large_customer_revenue\<close>, \<^verbatim>\<open>small_customer_revenue\<close> or \<^verbatim>\<open>total_revenue\<close>
  is absent or null shows the zero of that cell: \<^verbatim>\<open>0\<close> for a customer count,
  \<^verbatim>\<open>$0\<close> for a revenue. Building a row cannot throw there: the row is a value
  for every projection.
\<close>

theorem guarded_fields_show_zero:
  "(missing (large_customers_cumulative p) \<longrightarrow>
      projection_row p ! 2 = ''0'' \<and> projection_row_v1 p ! 2 = ''0'')
   \<and> (missing (small_customers_cumulative p) \<longrightarrow>
      projection_row p ! 3 = ''0'' \<and> projection_row_v1 p ! 3 = ''0'')
   \<and> (missing (large_customer_revenue p) \<longrightarrow>
      projection_row p ! 4 = ''$0'' \<and> projection_row_v1 p ! 4 = ''$0'')
   \<and> (missing (small_customer_revenue p) \<longrightarrow>
      projection_row p ! 5 = ''$0'' \<and> projection_row_v1 p ! 5 = ''$0'')
   \<and> (missing (total_revenue p) \<longrightarrow>
      projection_row p ! 6 = ''$0'' \<and> projection_row_v1 p ! 6 = ''$0'')"
  by (auto simp: missing_def projection_row_def projection_row_v1_def locale_or_zero_def
        formatNumber_0 formatCurrency_0 eval_nat_numeral)

theorem guarded_fields_show_zero_witness:
  "missing (total_revenue bare) \<and> projection_row bare ! 6 = ''$0''
   \<and> projection_row_v1 bare ! 6 = ''$0''
   \<and> missing (small_customers_cumulative bare) \<and> projection_row bare ! 3 = ''0''
   \<and> projection_row_v1 bare ! 3 = ''0''"
proof -
  have m: "missing (total_revenue bare)" "missing (small_customers_cumulative bare)"
    by (simp_all add: missing_def bare_def)
  with guarded_fields_show_zero [of bare] show ?thesis by blast
qed

theorem unguarded_cells_show_raw_values:
  "missing (total_revenue bare) \<and> projection_row_script bare ! 7 = ''$NaN''
   \<and> missing (sales_people bare) \<and> projection_row_script bare ! 1 = ''undefined''
   \<and> projection_row bare ! 1 = ''undefined people''"
  by (simp add: missing_def projection_row_script_def projection_row_def bare_def
        formatCurrency_def eval_nat_numeral)

lemma foldl_drivers:
  "foldl (\<lambda>s d. s\<lparr>driversContainer := driversContainer s @ [f d]\<rparr>) s ds
   = s\<lparr>driversContainer := driversContainer s @ map f ds\<rparr>"
  by (induction ds arbitrary: s) simp_all

lemma foldl_assumptions:
  "foldl (\<lambda>s kv. s\<lparr>assumptionsContainer := assumptionsContainer s @ [f kv]\<rparr>) s kvs
   = s\<lparr>assumptionsContainer := assumptionsContainer s @ map f kvs\<rparr>"
  by (induction kvs arbitrary: s) simp_all

lemma displayRevenueDrivers_eq:
  "displayRevenueDrivers ds s =
     s\<lparr>driversContainer :=
         (if ds = [] then [Paragraph ''No revenue drivers available'']
          else map driver_card ds)\<rparr>"
  by (simp add: displayRevenueDrivers_def Let_def foldl_drivers)

lemma displayAssumptions_eq:
  "displayAssumptions kvs s =
     s\<lparr>assumptionsContainer :=
         (if kvs = [] then [Paragraph ''No assumptions available'']
          else map (\<lambda>kv. assumption_card (fst kv) (snd kv)) kvs)\<rparr>"
  by (simp add: displayAssumptions_def Let_def foldl_assumptions)

text \<open>
  C7, as amended. In the class-based variants an empty list of drivers and an
  empty mapping of assumptions leave exactly the placeholder paragraph in the
  container, and in \<^verbatim>\<open>app.js\<close> neither container is ever left without a child.
\<close>

theorem empty_lists_render_placeholder:
  "driversContainer (displayRevenueDrivers [] s) = [Paragraph ''No revenue drivers available'']
   \<and> assumptionsContainer (displayAssumptions [] s) = [Paragraph ''No assumptions available'']
   \<and> displayRevenueDrivers_v1 (Some []) s
       = Normal (s\<lparr>driversContainer := [Paragraph ''No revenue drivers available'']\<rparr>)
   \<and> displayAssumptions_v1 (Some []) s
       = Normal (s\<lparr>assumptionsContainer := [Paragraph ''No assumptions available'']\<rparr>)
   \<and> driversContainer (displayRevenueDrivers ds s) \<noteq> []
   \<and> assumptionsContainer (displayAssumptions kvs s) \<noteq> []"
  by (simp add: displayRevenueDrivers_eq displayAssumptions_eq displayRevenueDrivers_v1_def
        displayAssumptions_v1_def)

theorem empty_lists_render_placeholder_witness:
  "driversContainer (displayRevenueDrivers [] initial)
     = [Paragraph ''No revenue drivers available'']
   \<and> assumptionsContainer (displayAssumptions [] initial)
     = [Paragraph ''No assumptions available'']
   \<and> driversContainer (page_of (displayRevenueDrivers_v1 (Some []) initial))
     = [Paragraph ''No revenue drivers available'']"
  using empty_lists_render_placeholder [of initial "[]" "[]"] by (simp add: page_of_def)

theorem script_empty_lists_leave_container_empty:
  "displayRevenueDrivers_script (Some []) initial = Normal (initial\<lparr>driversContainer := []\<rparr>)
   \<and> displayAssumptions_script (Some []) initial
       = Normal (initial\<lparr>assumptionsContainer := []\<rparr>)
   \<and> driversContainer (page_of (displayRevenueDrivers_script (Some []) initial)) = []
   \<and> assumptionsContainer (page_of (displayAssumptions_script (Some []) initial)) = []"
  by (simp add: displayRevenueDrivers_script_def displayAssumptions_script_def
        keyAssumptions_def page_of_def)

subsection \<open>Requests\<close>

lemma asking_query: "trim (queryInput asking) = ''forecast 12 months''"
  by (simp add: asking_def initial_def trim_def white_space_def)

lemma blank_query: "trim (queryInput blank) = []"
  by (simp add: blank_def initial_def trim_def white_space_def)

lemma failure_detail_not_Nil: "toString (failure_detail b) \<noteq> []"
  by (cases b) (auto simp: failure_detail_def or_else_def generic_failure_def truthy_toString)

lemma catch_error_text: "errorText (catch_error e s) \<noteq> []"
  by (cases e) (simp add: catch_error_def showError_def name_of_not_Nil)

lemma catch_error_frame:
  "currentModel (catch_error e s) = currentModel s"
  "errorShown (catch_error e s)"
  "requests (catch_error e s) = requests s"
  by (simp_all add: catch_error_def showError_def)

lemma generateModel_failed:
  assumes "trim (queryInput s) \<noteq> []" and "failed net"
  shows "currentModel (generateModel net s) = currentModel s
       \<and> errorShown (generateModel net s)
       \<and> errorText (generateModel net s) \<noteq> []
       \<and> \<not> loadingShown (generateModel net s)"
proof (cases net)
  case (Rejected e)
  with assms show ?thesis
    by (simp add: generateModel_def Let_def showLoading_def catch_error_frame catch_error_text
          hideError_def)
next
  case (Response ok b)
  with assms show ?thesis
    by (cases b)
       (simp_all add: generateModel_def Let_def showLoading_def catch_error_frame
          catch_error_text hideError_def)
qed

lemma generateModel_v1_failed:
  assumes "trim (queryInput s) \<noteq> []" and "failed net"
  shows "currentModel (generateModel_v1 net s) = currentModel s
       \<and> errorShown (generateModel_v1 net s)
       \<and> errorText (generateModel_v1 net s) = surfaced generic_failure net
       \<and> \<not> loadingShown (generateModel_v1 net s)"
proof (cases net)
  case (Rejected e)
  with assms show ?thesis
    by (simp add: generateModel_v1_def Let_def showLoading_def showError_v1_def showError_def
          hideError_def)
next
  case (Response ok b)
  with assms show ?thesis
    by (cases b)
       (simp_all add: generateModel_v1_def Let_def showLoading_def showError_v1_def
          showError_def hideError_def)
qed

lemma surfaced_silent: "g \<noteq> [] \<Longrightarrow> (surfaced g net = []) = silent net"
proof (cases net)
  case (Rejected e)
  then show ?thesis by simp
next
  case (Response ok b)
  assume "g \<noteq> []"
  with Response show ?thesis
    by (cases b) (auto simp: or_else_def truthy_toString)
qed

lemma handleQuerySubmit_failed:
  assumes "failed net"
  shows "currentModelId (handleQuerySubmit net s) = currentModelId s
       \<and> alerts (handleQuerySubmit net s)
           = alerts s @ [''Error: '' @ surfaced ''Failed to generate model'' net]
       \<and> \<not> loadingShown (handleQuerySubmit net s)"
proof (cases net)
  case (Rejected e)
  then show ?thesis
    by (simp add: handleQuerySubmit_def Let_def showError_script_def hideLoading_def
          showLoading_script_def)
next
  case (Response ok b)
  with assms show ?thesis
    by (cases b)
       (simp_all add: handleQuerySubmit_def Let_def showError_script_def hideLoading_def
          showLoading_script_def)
qed

text \<open>
  C1, as amended. A search that was sent and failed (the call was rejected,
  the body of the response could not be read, or the response was not ok)
  leaves the held model as it was and ends with the loading indicator hidden.
  \<^verbatim>\<open>generateModel\<close> of \<^verbatim>\<open>app.js\<close> shows an error message that is not empty.
  \<^verbatim>\<open>generateModel\<close> of the earlier class shows the banner with the message of
  the thrown error as it is: the detail of the response, or the generic text
  in its place, and else the collaborator's own message, so that the text is
  empty exactly when the collaborator threw an error with an empty message.
  \<^verbatim>\<open>handleQuerySubmit\<close> keeps the held model id, hides the loading section and
  raises one alert, \<^verbatim>\<open>Error: \<close> followed by that same message.
\<close>

theorem failed_search_keeps_model:
  assumes "failed net"
  shows "(trim (queryInput s) \<noteq> [] \<longrightarrow>
            currentModel (generateModel net s) = currentModel s
          \<and> errorShown (generateModel net s)
          \<and> errorText (generateModel net s) \<noteq> []
          \<and> \<not> loadingShown (generateModel net s)
          \<and> currentModel (generateModel_v1 net s) = currentModel s
          \<and> errorShown (generateModel_v1 net s)
          \<and> errorText (generateModel_v1 net s) = surfaced generic_failure net
          \<and> (errorText (generateModel_v1 net s) = []) = silent net
          \<and> \<not> loadingShown (generateModel_v1 net s))
       \<and> currentModelId (handleQuerySubmit net s) = currentModelId s
       \<and> alerts (handleQuerySubmit net s)
           = alerts s @ [''Error: '' @ surfaced ''Failed to generate model'' net]
       \<and> \<not> loadingShown (handleQuerySubmit net s)"
proof -
  have "(surfaced generic_failure net = []) = silent net"
    by (rule surfaced_silent) (simp add: generic_failure_def)
  with generateModel_failed [OF _ assms, of s] generateModel_v1_failed [OF _ assms, of s]
    handleQuerySubmit_failed [OF assms, of s]
  show ?thesis by simp
qed

theorem failed_search_keeps_model_witness:
  "trim (queryInput (asking\<lparr>currentModel := Some sample\<rparr>)) = ''forecast 12 months''
   \<and> failed (Response False (Parsed refusal))
   \<and> currentModel (generateModel (Response False (Parsed refusal))
        (asking\<lparr>currentModel := Some sample\<rparr>)) = Some sample
   \<and> errorText (generateModel (Response False (Parsed refusal))
        (asking\<lparr>currentModel := Some sample\<rparr>)) \<noteq> []
   \<and> \<not> loadingShown (generateModel (Response False (Parsed refusal))
        (asking\<lparr>currentModel := Some sample\<rparr>))
   \<and> currentModel (generateModel_v1 (Response False (Parsed refusal))
        (asking\<lparr>currentModel := Some sample\<rparr>)) = Some sample
   \<and> errorText (generateModel_v1 (Response False (Parsed refusal))
        (asking\<lparr>currentModel := Some sample\<rparr>)) = ''No such scenario''
   \<and> alerts (handleQuerySubmit (Response False (Parsed refusal))
        (asking\<lparr>currentModel := Some sample\<rparr>)) = [''Error: No such scenario'']
   \<and> failed (Response True (Unparsable (JsError SyntaxError ''Unexpected end of JSON input'')))
   \<and> currentModel (generateModel_v1
        (Response True (Unparsable (JsError SyntaxError ''Unexpected end of JSON input'')))
        (asking\<lparr>currentModel := Some sample\<rparr>)) = Some sample
   \<and> errorText (generateModel_v1
        (Response True (Unparsable (JsError SyntaxError ''Unexpected end of JSON input'')))
        (asking\<lparr>currentModel := Some sample\<rparr>)) = ''Unexpected end of JSON input''"
proof -
  have q: "trim (queryInput (asking\<lparr>currentModel := Some sample\<rparr>)) = ''forecast 12 months''"
    using asking_query by simp
  have f: "failed (Response False (Parsed refusal))" by simp
  have g: "failed (Response True (Unparsable (JsError SyntaxError
      ''Unexpected end of JSON input'')))"
    by simp
  have a: "alerts (asking\<lparr>currentModel := Some sample\<rparr>) = []"
    by (simp add: asking_def initial_def)
  have r: "surfaced generic_failure (Response False (Parsed refusal)) = ''No such scenario''"
    "surfaced ''Failed to generate model'' (Response False (Parsed refusal))
       = ''No such scenario''"
    by (simp_all add: refusal_def or_else_def)
  from failed_search_keeps_model [OF f, of "asking\<lparr>currentModel := Some sample\<rparr>"]
    failed_search_keeps_model [OF g, of "asking\<lparr>currentModel := Some sample\<rparr>"]
    q f g a r
  show ?thesis by simp
qed

theorem earlier_class_shows_empty_message:
  "failed (Rejected (JsError Error []))
   \<and> trim (queryInput asking) = ''forecast 12 months''
   \<and> errorShown (generateModel_v1 (Rejected (JsError Error [])) asking)
   \<and> errorText (generateModel_v1 (Rejected (JsError Error [])) asking) = []
   \<and> alerts (handleQuerySubmit (Rejected (JsError Error [])) asking) = [''Error: '']
   \<and> errorText (generateModel (Rejected (JsError Error [])) asking) = ''Error''"
proof -
  have f: "failed (Rejected (JsError Error []))" by simp
  have q: "trim (queryInput asking) \<noteq> []" using asking_query by simp
  have a: "alerts asking = []" by (simp add: asking_def initial_def)
  have "errorText (generateModel (Rejected (JsError Error [])) asking) = ''Error''"
    using q by (simp add: generateModel_def Let_def showLoading_def catch_error_def
        showError_def hideError_def)
  with generateModel_v1_failed [OF q f] handleQuerySubmit_failed [OF f, of asking] a asking_query
  show ?thesis by simp
qed

lemma driver_items_script_requests:
  "requests (page_of (driver_items_script ds s)) = requests s"
proof (induction ds arbitrary: s)
  case Nil
  show ?case by (simp add: page_of_def)
next
  case (Cons d ds)
  from Cons.IH [of "s\<lparr>driversContainer := driversContainer s @ [DriverItem d]\<rparr>"]
  show ?case by (simp add: page_of_def split: jsval.split)
qed

lemma displayRevenueDrivers_script_requests:
  "requests (page_of (displayRevenueDrivers_script ds s)) = requests s"
  using driver_items_script_requests [of _ "s\<lparr>driversContainer := []\<rparr>"]
  by (simp add: displayRevenueDrivers_script_def Let_def page_of_def split: option.split)

lemma assumption_items_requests:
  "requests (foldl (\<lambda>s key.
                    case map_of kvs key of
                      None \<Rightarrow> s
                    | Some v \<Rightarrow>
                        if v \<noteq> Undefined
                        then s\<lparr>assumptionsContainer :=
                                 assumptionsContainer s @ [AssumptionItem key v]\<rparr>
                        else s) s keys) = requests s"
  by (induction keys arbitrary: s) (simp_all split: option.split)

lemma displayAssumptions_script_requests:
  "requests (page_of (displayAssumptions_script kvs s)) = requests s"
  by (simp add: displayAssumptions_script_def Let_def page_of_def assumption_items_requests
        split: option.split)

lemma displayResults_script_requests:
  "requests (page_of (displayResults_script data s)) = requests s"
proof (cases "model_id data")
  case (Str mid)
  show ?thesis
  proof (cases "monthly_projections data")
    case None
    with Str show ?thesis
      by (simp add: displayResults_script_def Let_def page_of_def hideLoading_def)
  next
    case (Some ps)
    show ?thesis
    proof (cases "length ps = 0")
      case True
      with Str Some show ?thesis
        by (simp add: displayResults_script_def Let_def page_of_def hideLoading_def)
    next
      case False
      define s4 where "s4 = s\<lparr>loadingShown := False, modelIdText := take 8 mid @ ''...'',
          timeHorizonText := number_toString (int (length ps)) @ '' months'',
          month1RevenueText := formatCurrency (toNumber (total_revenue (ps ! 0))),
          finalRevenueText := formatCurrency (toNumber (total_revenue (ps ! (length ps - 1))))\<rparr>"
      have eq: "displayResults_script data s =
          (case displayRevenueDrivers_script (revenue_drivers data) s4 of
             Abrupt e s5 \<Rightarrow> Abrupt e s5
           | Normal s5 \<Rightarrow>
               (case displayAssumptions_script (assumptions data)
                       (displayProjectionsTable_script ps s5) of
                  Abrupt e s7 \<Rightarrow> Abrupt e s7
                | Normal s7 \<Rightarrow> Normal (s7\<lparr>resultsShown := True\<rparr>)))"
        using Str Some False
        by (simp add: displayResults_script_def Let_def hideLoading_def s4_def)
      have r4: "requests s4 = requests s" by (simp add: s4_def)
      show ?thesis
      proof (cases "displayRevenueDrivers_script (revenue_drivers data) s4")
        case (Abrupt e s5)
        with displayRevenueDrivers_script_requests [of "revenue_drivers data" s4] eq r4
        show ?thesis by (simp add: page_of_def)
      next
        case (Normal s5)
        with displayRevenueDrivers_script_requests [of "revenue_drivers data" s4] r4
        have r5: "requests s5 = requests s" by (simp add: page_of_def)
        let ?s6 = "displayProjectionsTable_script ps s5"
        have r6: "requests ?s6 = requests s"
          using r5 by (simp add: displayProjectionsTable_script_eq)
        from displayAssumptions_script_requests [of "assumptions data" ?s6] r6 eq Normal
        show ?thesis
          by (cases "displayAssumptions_script (assumptions data) ?s6")
             (simp_all add: page_of_def)
      qed
    qed
  qed
qed (simp_all add: displayResults_script_def Let_def page_of_def hideLoading_def)

lemma handleQuerySubmit_requests:
  "requests (handleQuerySubmit net s) = requests s @ [Search (search_params s)]"
proof (cases net)
  case (Rejected e)
  then show ?thesis
    by (simp add: handleQuerySubmit_def Let_def showError_script_def hideLoading_def
          showLoading_script_def)
next
  case (Response ok b)
  show ?thesis
  proof (cases b)
    case (Unparsable e)
    with Response show ?thesis
      by (simp add: handleQuerySubmit_def Let_def showError_script_def hideLoading_def
            showLoading_script_def)
  next
    case (Parsed data)
    let ?s2 = "s\<lparr>loadingShown := True, resultsShown := False,
                 requests := requests s @ [Search (search_params s)],
                 currentModelId := model_id data\<rparr>"
    from displayResults_script_requests [of data ?s2] Response Parsed show ?thesis
      by (cases "displayResults_script data ?s2")
         (simp_all add: handleQuerySubmit_def Let_def showError_script_def hideLoading_def
            showLoading_script_def page_of_def)
  qed
qed

text \<open>
  C8, as amended. In the class-based variants a query that is empty once
  trimmed gets the validation message and nothing else happens: the page is
  the one before with the error banner set, and no request is made.
  \<^verbatim>\<open>handleQuerySubmit\<close> of \<^verbatim>\<open>script.js\<close> does not look at the query: it sends
  its request all the same.
\<close>

theorem empty_query_makes_no_request:
  assumes "trim (queryInput s) = []"
  shows "generateModel net s
           = s\<lparr>errorText := ''Please describe your financial scenario'', errorShown := True\<rparr>
       \<and> requests (generateModel net s) = requests s
       \<and> generateModel_v1 net s
           = s\<lparr>errorText := ''Please describe your financial scenario'', errorShown := True\<rparr>
       \<and> requests (generateModel_v1 net s) = requests s
       \<and> requests (handleQuerySubmit net s) = requests s @ [Search (search_params s)]"
  using assms
  by (simp add: generateModel_def generateModel_v1_def showError_def handleQuerySubmit_requests)

theorem empty_query_makes_no_request_witness:
  "trim (queryInput blank) = []
   \<and> requests (generateModel (Response True (Parsed sample)) blank) = []
   \<and> errorText (generateModel (Response True (Parsed sample)) blank)
       = ''Please describe your financial scenario''
   \<and> currentModel (generateModel (Response True (Parsed sample)) blank) = None
   \<and> requests (generateModel_v1 (Response True (Parsed sample)) blank) = []"
  using empty_query_makes_no_request [OF blank_query, of "Response True (Parsed sample)"]
    blank_query
  by (simp add: blank_def initial_def)

theorem script_sends_blank_query:
  "trim (queryInput blank) = []
   \<and> requests (handleQuerySubmit (Rejected (JsError TypeError ''Failed to fetch'')) blank)
       = [Search [(''query'', [CHR 0x20, CHR 0x09, CHR 0x20])]]
   \<and> alerts (handleQuerySubmit (Rejected (JsError TypeError ''Failed to fetch'')) blank)
       = [''Error: Failed to fetch'']"
  using blank_query
  by (simp add: handleQuerySubmit_def Let_def showError_script_def hideLoading_def
        showLoading_script_def search_params_def blank_def initial_def)

text \<open>
  C10. With no model held, \<^verbatim>\<open>exportToExcel\<close> of either class returns the page
  it was given: no request, no download, no change to the loading indicator,
  the error banner or the model.
\<close>

theorem export_without_model_is_noop:
  "currentModel s = None \<Longrightarrow> exportToExcel net s = s \<and> exportToExcel_v1 net s = s"
  by (simp add: exportToExcel_def exportToExcel_v1_def)

theorem export_without_model_is_noop_witness:
  "currentModel asking = None
   \<and> exportToExcel (BlobResponse True None) asking = asking
   \<and> exportToExcel_v1 (BlobResponse True None) asking = asking"
proof -
  have n: "currentModel asking = None" by (simp add: asking_def initial_def)
  from export_without_model_is_noop [OF n] n show ?thesis by simp
qed

subsection \<open>What rendering leaves alone\<close>

lemma draw_frame:
  "activeTab (draw k cfg s) = activeTab s"
  "currentModel (draw k cfg s) = currentModel s"
  "errorShown (draw k cfg s) = errorShown s"
  "loadingShown (draw k cfg s) = loadingShown s"
  "canvases (draw k cfg s) = canvases s"
  "chartLib (draw k cfg s) = chartLib s"
  by (simp_all add: draw_def new_Chart_def release_def destroy_def split: option.split)


















subsection \<open>Charts\<close>

lemma chain_append: "chain s xs m \<Longrightarrow> chain m ys t \<Longrightarrow> chain s (xs @ ys) t"
  by (induction xs arbitrary: s) auto

lemma chain_draw: "chain s (draw_steps k cfg s) (draw k cfg s)"
  by (simp add: draw_steps_def draw_def release_def split: option.split)

lemma chain_renderCharts: "chain s (renderCharts_steps ps s) (renderCharts ps s)"
  by (auto simp: renderCharts_steps_def renderCharts_def Let_def
        intro!: chain_append chain_draw)

lemma chain_renders: "chain s (renders_steps calls s) (renders calls s)"
  by (induction calls arbitrary: s) (auto intro: chain_append chain_renderCharts)

lemma owned_one:
  assumes "owned s"
  shows "length (live_on s k) \<le> 1"
proof -
  have d: "distinct (map wid (live_on s k))"
    using assms by (simp add: owned_def live_on_def distinct_map_filter)
  have "wid ` set (live_on s k) \<subseteq> {case charts s k of None \<Rightarrow> 0 | Some c \<Rightarrow> c}"
    using assms by (auto simp: owned_def live_on_def)
  then have "card (wid ` set (live_on s k))
      \<le> card {case charts s k of None \<Rightarrow> 0 | Some c \<Rightarrow> c}"
    by (intro card_mono) simp_all
  moreover from distinct_card [OF d]
  have "card (wid ` set (live_on s k)) = length (live_on s k)"
    by simp
  ultimately show ?thesis by simp
qed

lemma owned_destroy: "owned s \<Longrightarrow> owned (destroy c s)"
  by (auto simp: owned_def destroy_def distinct_map_filter)

lemma owned_release: "owned s \<Longrightarrow> owned (release k s)"
  by (simp add: release_def owned_destroy split: option.split)

lemma release_clears: "owned s \<Longrightarrow> live_on (release k s) k = []"
  by (auto simp: owned_def release_def destroy_def live_on_def filter_empty_conv
        split: option.split)

lemma owned_new_Chart:
  assumes "owned s" and "live_on s k = []"
  shows "owned (new_Chart k cfg s)"
proof -
  from assms(2) have "\<forall>w \<in> set (instances s). canvas w \<noteq> k"
    by (auto simp: live_on_def filter_empty_conv)
  with assms(1) show ?thesis
    by (auto simp: owned_def new_Chart_def)
qed

lemma owned_draw: "owned s \<Longrightarrow> owned (draw k cfg s)"
  by (simp add: draw_def owned_new_Chart owned_release release_clears)

lemma draw_steps_ok:
  assumes "owned s"
  shows "list_all step_ok (draw_steps k cfg s)"
proof -
  have r: "owned (release k s)" "live_on (release k s) k = []"
    using assms by (simp_all add: owned_release release_clears)
  then have n: "owned (new_Chart k cfg (release k s))" by (rule owned_new_Chart)
  from r n assms show ?thesis
    by (simp add: draw_steps_def step_ok_def owned_destroy split: option.split)
qed

lemma owned_renderCharts: "owned s \<Longrightarrow> owned (renderCharts ps s)"
  by (simp add: renderCharts_def owned_draw)

lemma renderCharts_steps_ok: "owned s \<Longrightarrow> list_all step_ok (renderCharts_steps ps s)"
  by (simp add: renderCharts_steps_def Let_def draw_steps_ok owned_draw)

lemma renders_steps_ok: "owned s \<Longrightarrow> list_all step_ok (renders_steps calls s)"
  by (induction calls arbitrary: s) (simp_all add: renderCharts_steps_ok owned_renderCharts)

lemma owned_initial: "owned initial"
  by (simp add: owned_def initial_def)

text \<open>
  C3. Start from a page on which the class owns its widgets, as the page the
  constructor leaves, and call \<^verbatim>\<open>renderCharts\<close> any number of times with any
  data. The steps listed are the run itself (each begins where the one before
  ended, from the first page to the last). No canvas has more than one live
  widget at the start or after any step, and whenever a widget is created on
  the canvas of a slot, no widget is live on that canvas just before.
\<close>

theorem one_widget_per_slot:
  assumes "owned s"
  shows "(\<forall>k. length (live_on s k) \<le> 1)
       \<and> (\<forall>(pre, e, post) \<in> set (renders_steps calls s).
             (\<forall>k. length (live_on post k) \<le> 1)
             \<and> (\<forall>k c. e = Created k c \<longrightarrow> live_on pre k = []))
       \<and> chain s (renders_steps calls s) (renders calls s)"
proof (intro conjI ballI allI)
  fix k show "length (live_on s k) \<le> 1" using assms by (rule owned_one)
next
  fix st assume "st \<in> set (renders_steps calls s)"
  with renders_steps_ok [OF assms, of calls] have ok: "step_ok st"
    by (simp add: list_all_iff)
  obtain pre e post where st: "st = (pre, e, post)" by (cases st)
  with ok have op: "owned post" and c: "\<And>k c. e = Created k c \<Longrightarrow> live_on pre k = []"
    by (auto simp: step_ok_def)
  have "\<forall>k. length (live_on post k) \<le> 1" by (intro allI owned_one op)
  with c st show "case st of (pre, e, post) \<Rightarrow>
             (\<forall>k. length (live_on post k) \<le> 1)
             \<and> (\<forall>k c. e = Created k c \<longrightarrow> live_on pre k = [])"
    by auto
next
  show "chain s (renders_steps calls s) (renders calls s)" by (rule chain_renders)
qed

lemma two_renders_events:
  "map (\<lambda>(pre, e, post). e) (renders_steps [[bare], [bare, full]] initial)
     = [Created RevenueLine 0, Created RevenueBreakdown 1, Created RevenueMillion 2,
        Destroyed RevenueLine 0, Created RevenueLine 3,
        Destroyed RevenueBreakdown 1, Created RevenueBreakdown 4,
        Destroyed RevenueMillion 2, Created RevenueMillion 5]"
  by (simp add: renderCharts_steps_def renderCharts_def draw_steps_def draw_def release_def
        destroy_def new_Chart_def initial_def Let_def)

theorem one_widget_per_slot_witness:
  "owned initial
   \<and> length (renders_steps [[bare], [bare, full]] initial) = 9
   \<and> list_all (\<lambda>(pre, e, post).
         (\<forall>k. length (live_on post k) \<le> 1)
         \<and> (\<forall>k c. e = Created k c \<longrightarrow> live_on pre k = []))
       (renders_steps [[bare], [bare, full]] initial)
   \<and> chain initial (renders_steps [[bare], [bare, full]] initial)
       (renders [[bare], [bare, full]] initial)"
proof -
  have "length (map (\<lambda>(pre, e, post). e) (renders_steps [[bare], [bare, full]] initial)) = 9"
    by (simp only: two_renders_events) simp
  then have "length (renders_steps [[bare], [bare, full]] initial) = 9"
    by (simp only: length_map)
  with one_widget_per_slot [OF owned_initial, of "[[bare], [bare, full]]"] owned_initial
  show ?thesis by (simp add: list_all_iff)
qed

lemma draw_config:
  assumes "canvases s k" and "chartLib s"
  shows "\<exists>w \<in> set (instances (draw k cfg s)).
           charts (draw k cfg s) k = Some (wid w) \<and> canvas w = k \<and> config w = cfg"
  using assms by (simp add: draw_def new_Chart_def)

subsection \<open>Rounding to binary64\<close>

lemma bits_bounds: "0 < n \<Longrightarrow> 2 ^ (bits n - 1) \<le> n \<and> n < 2 ^ bits n"
proof (induction n rule: bits.induct)
  case (1 n)
  show ?case
  proof (cases "n div 2 = 0")
    case True
    with "1.prems" have "n = 1" by (simp add: div_eq_0_iff)
    then show ?thesis by (simp add: bits.simps)
  next
    case False
    with "1.IH" "1.prems"
    have ih: "2 ^ (bits (n div 2) - 1) \<le> n div 2" "n div 2 < 2 ^ bits (n div 2)"
      by simp_all
    have b: "bits n = Suc (bits (n div 2))" using "1.prems" by (subst bits.simps) simp
    have p: "0 < bits (n div 2)" using False by (subst bits.simps) simp
    then have "(2::nat) ^ bits (n div 2) = 2 * 2 ^ (bits (n div 2) - 1)"
      by (cases "bits (n div 2)") simp_all
    with ih(1) have "2 ^ bits (n div 2) \<le> 2 * (n div 2)" by simp
    also have "\<dots> \<le> n" by simp
    finally have lo: "2 ^ (bits n - 1) \<le> n" by (simp add: b)
    from ih(2) have "n div 2 + 1 \<le> 2 ^ bits (n div 2)" by simp
    then have "2 * (n div 2 + 1) \<le> 2 ^ bits n" by (simp add: b)
    moreover have "n < 2 * (n div 2 + 1)" by simp
    ultimately have "n < 2 ^ bits n" by linarith
    with lo show ?thesis by simp
  qed
qed

lemma binexp_bounds:
  assumes "x \<noteq> 0"
  shows "2 powi binexp x \<le> \<bar>x\<bar>" and "\<bar>x\<bar> < 2 powi (binexp x + 1)"
proof -
  define a where "a = \<bar>x\<bar>"
  define s where "s = bits (nat \<lceil>1 / a\<rceil>)"
  define z where "z = a * 2 ^ s"
  define k where "k = bits (nat \<lfloor>z\<rfloor>)"
  have a: "0 < a" using assms by (simp add: a_def)
  then have "0 < 1 / a" by simp
  then have c: "0 < \<lceil>1 / a\<rceil>" by (simp add: ceiling_less_iff)
  then have "0 < nat \<lceil>1 / a\<rceil>" by simp
  from bits_bounds [OF this] have "nat \<lceil>1 / a\<rceil> < 2 ^ s" by (simp add: s_def)
  then have "\<lceil>1 / a\<rceil> < 2 ^ s" using c by (simp add: nat_less_iff)
  then have "of_int \<lceil>1 / a\<rceil> < (2::rat) ^ s"
    by (metis of_int_less_iff of_int_numeral of_int_power)
  moreover have "1 / a \<le> of_int \<lceil>1 / a\<rceil>" by (rule le_of_int_ceiling)
  ultimately have "1 / a < 2 ^ s" by linarith
  with a have z1: "1 < z" by (simp add: z_def field_simps)
  then have z2: "1 \<le> \<lfloor>z\<rfloor>" by (simp add: le_floor_iff)
  then have m: "0 < nat \<lfloor>z\<rfloor>" by simp
  from bits_bounds [OF m] have kb: "2 ^ (k - 1) \<le> nat \<lfloor>z\<rfloor>" "nat \<lfloor>z\<rfloor> < 2 ^ k"
    by (simp_all add: k_def)
  have kpos: "0 < k" using m unfolding k_def by (subst bits.simps) simp
  from kb(1) have "int (2 ^ (k - 1)) \<le> int (nat \<lfloor>z\<rfloor>)" by (simp only: of_nat_le_iff)
  with z2 have "2 ^ (k - 1) \<le> \<lfloor>z\<rfloor>" by simp
  then have lo: "(2::rat) ^ (k - 1) \<le> z"
    by (simp add: le_floor_iff)
  from kb(2) have "\<lfloor>z\<rfloor> < 2 ^ k" using z2 by (simp add: nat_less_iff)
  then have hi: "z < 2 ^ k" by (simp add: floor_less_iff)
  have e: "binexp x = int (k - 1) - int s"
    using kpos by (simp add: binexp_def Let_def a_def s_def z_def k_def)
  have p1: "(2::rat) powi binexp x = 2 ^ (k - 1) / 2 ^ s"
    unfolding e by (subst power_int_diff) simp_all
  have "binexp x + 1 = int k - int s" using kpos e by simp
  then have p2: "(2::rat) powi (binexp x + 1) = 2 ^ k / 2 ^ s"
    by (simp add: power_int_diff)
  from lo show "2 powi binexp x \<le> \<bar>x\<bar>"
    unfolding p1 by (simp add: z_def a_def field_simps)
  from hi show "\<bar>x\<bar> < 2 powi (binexp x + 1)"
    unfolding p2 by (simp add: z_def a_def field_simps)
qed

lemma binexp_unique:
  assumes "x \<noteq> 0" and "2 powi e \<le> \<bar>x\<bar>" and "\<bar>x\<bar> < 2 powi (e + 1)"
  shows "binexp x = e"
proof (rule ccontr)
  assume ne: "binexp x \<noteq> e"
  note b = binexp_bounds [OF assms(1)]
  show False
  proof (cases "binexp x < e")
    case True
    then have "(2::rat) powi (binexp x + 1) \<le> 2 powi e"
      by (intro power_int_increasing) simp_all
    with b(2) assms(2) show False by linarith
  next
    case False
    with ne have "e + 1 \<le> binexp x" by simp
    then have "(2::rat) powi (e + 1) \<le> 2 powi binexp x"
      by (intro power_int_increasing) simp_all
    with b(1) assms(3) show False by linarith
  qed
qed

lemma round_even_error: "\<bar>of_int (round_even m) - m\<bar> \<le> 1 / 2"
proof -
  have "of_int \<lfloor>m\<rfloor> \<le> m" "m < of_int \<lfloor>m\<rfloor> + 1" by linarith+
  then show ?thesis by (auto simp: round_even_def Let_def abs_le_iff)
qed

lemma round_even_eqI:
  assumes "\<bar>m - of_int k\<bar> < 1 / 2"
  shows "round_even m = k"
proof -
  have f: "of_int \<lfloor>m\<rfloor> \<le> m" "m < of_int \<lfloor>m\<rfloor> + 1" by linarith+
  from assms have h: "of_int k - 1 / 2 < m" "m < of_int k + 1 / 2" by linarith+
  with f have "of_int k - 3 / 2 < (of_int \<lfloor>m\<rfloor> :: rat)"
    "(of_int \<lfloor>m\<rfloor> :: rat) < of_int k + 1 / 2"
    by linarith+
  then have "of_int k - 2 < (of_int \<lfloor>m\<rfloor> :: rat)" "(of_int \<lfloor>m\<rfloor> :: rat) < of_int k + 1"
    by linarith+
  then have "k - 2 < \<lfloor>m\<rfloor>" "\<lfloor>m\<rfloor> < k + 1"
    by (metis of_int_less_iff of_int_diff of_int_numeral,
        metis of_int_less_iff of_int_add of_int_1)
  then have "\<lfloor>m\<rfloor> = k \<or> \<lfloor>m\<rfloor> = k - 1" by linarith
  then show ?thesis
  proof
    assume "\<lfloor>m\<rfloor> = k"
    with h(2) show ?thesis by (simp add: round_even_def Let_def)
  next
    assume "\<lfloor>m\<rfloor> = k - 1"
    with h(1) show ?thesis by (simp add: round_even_def Let_def)
  qed
qed

text \<open>A value of at least \<^verbatim>\<open>2^-1022\<close> in size is rounded with a relative error
  of at most \<^verbatim>\<open>2^-53\<close>.\<close>

lemma binary64_error:
  assumes "2 powi (- 1022) \<le> \<bar>x\<bar>"
  shows "\<bar>binary64 x - x\<bar> \<le> \<bar>x\<bar> / 2 ^ 53"
proof -
  have "(0::rat) < 2 powi (- 1022)" by (rule zero_less_power_int) simp
  with assms have "0 < \<bar>x\<bar>" by linarith
  then have x: "x \<noteq> 0" by simp
  note b = binexp_bounds [OF x]
  have lo: "- 1022 \<le> binexp x"
  proof (rule ccontr)
    assume "\<not> - 1022 \<le> binexp x"
    then have "binexp x + 1 \<le> - 1022" by simp
    then have "(2::rat) powi (binexp x + 1) \<le> 2 powi (- 1022)"
      by (intro power_int_increasing) simp_all
    with b(2) assms show False by linarith
  qed
  define e where "e = binexp x - 52"
  define p :: rat where "p = 2 powi e"
  have p: "0 < p" unfolding p_def by (rule zero_less_power_int) simp
  have m: "max (binexp x - 52) (- 1074) = e" using lo by (simp add: e_def)
  have r: "binary64 x = of_int (round_even (x / p)) * p"
    using x m by (simp add: binary64_def Let_def p_def)
  have "\<bar>of_int (round_even (x / p)) - x / p\<bar> \<le> 1 / 2" by (rule round_even_error)
  then have "\<bar>of_int (round_even (x / p)) - x / p\<bar> * p \<le> 1 / 2 * p"
    using p by (intro mult_right_mono) simp_all
  moreover have "\<bar>of_int (round_even (x / p)) - x / p\<bar> * p
      = \<bar>of_int (round_even (x / p)) * p - x\<bar>"
  proof -
    have "\<bar>of_int (round_even (x / p)) - x / p\<bar> * p
        = \<bar>(of_int (round_even (x / p)) - x / p) * p\<bar>"
      using p by (simp add: abs_mult)
    also have "(of_int (round_even (x / p)) - x / p) * p = of_int (round_even (x / p)) * p - x"
      using p by (simp add: field_simps)
    finally show ?thesis .
  qed
  ultimately have e1: "\<bar>binary64 x - x\<bar> \<le> p / 2" by (simp add: r)
  have "(2::rat) powi binexp x = 2 powi (e + 52)" by (simp add: e_def)
  also have "\<dots> = p * 2 ^ 52" unfolding p_def by (subst power_int_add) simp_all
  finally have "p * 2 ^ 52 \<le> \<bar>x\<bar>" using b(1) by simp
  then have "p / 2 \<le> \<bar>x\<bar> / 2 ^ 53" by (simp add: field_simps)
  with e1 show ?thesis by linarith
qed

text \<open>A value that has a 53-bit significand \<open>m\<close> at exponent \<open>e\<close> within less than
  half a unit in the last place is rounded to it.\<close>

lemma binary64_eqI:
  assumes "2 ^ 52 \<le> \<bar>m\<bar>" and "\<bar>m\<bar> < 2 ^ 53" and "- 1074 \<le> e"
    and "\<bar>x - of_int m * 2 powi e\<bar> < 2 powi e / 2"
    and "2 powi (e + 52) \<le> \<bar>x\<bar>"
  shows "binary64 x = of_int m * 2 powi e"
proof -
  define p :: rat where "p = 2 powi e"
  have p: "0 < p" unfolding p_def by (rule zero_less_power_int) simp
  have "(0::rat) < 2 powi (e + 52)" by (rule zero_less_power_int) simp
  with assms(5) have "0 < \<bar>x\<bar>" by linarith
  then have x: "x \<noteq> 0" by simp
  from assms(2) have "\<bar>m\<bar> \<le> 2 ^ 53 - 1" by simp
  then have "(of_int \<bar>m\<bar> :: rat) \<le> of_int (2 ^ 53 - 1)" by (simp only: of_int_le_iff)
  then have mb: "\<bar>of_int m :: rat\<bar> \<le> 2 ^ 53 - 1" by simp
  have "\<bar>x\<bar> \<le> \<bar>x - of_int m * p\<bar> + \<bar>of_int m * p\<bar>" by linarith
  also have "\<bar>of_int m * p\<bar> = \<bar>of_int m\<bar> * p" using p by (simp add: abs_mult)
  also have "\<bar>of_int m\<bar> * p \<le> (2 ^ 53 - 1) * p"
    using mb p by (intro mult_right_mono) simp_all
  finally have "\<bar>x\<bar> \<le> \<bar>x - of_int m * p\<bar> + (2 ^ 53 - 1) * p" by linarith
  with assms(4) have "\<bar>x\<bar> < p / 2 + (2 ^ 53 - 1) * p" by (simp add: p_def)
  also have "\<dots> < 2 ^ 53 * p" using p by (simp add: field_simps)
  also have "2 ^ 53 * p = 2 powi (e + 52 + 1)"
    unfolding p_def by (subst power_int_add, simp, subst power_int_add, simp, simp)
  finally have hi: "\<bar>x\<bar> < 2 powi (e + 52 + 1)" .
  have be: "binexp x = e + 52" by (rule binexp_unique [OF x assms(5) hi])
  have r: "binary64 x = of_int (round_even (x / p)) * p"
    using x be assms(3) by (simp add: binary64_def Let_def p_def)
  have "\<bar>x / p - of_int m\<bar> = \<bar>(x - of_int m * p) / p\<bar>" using p by (simp add: field_simps)
  also have "\<dots> = \<bar>x - of_int m * p\<bar> / p" using p by (simp add: abs_divide)
  also have "\<dots> < 1 / 2" using assms(4) p by (simp add: p_def field_simps)
  finally have "round_even (x / p) = m" by (rule round_even_eqI)
  with r show ?thesis by (simp add: p_def)
qed

subsection \<open>The millions transform\<close>

lemma toMillions_near:
  assumes "1 \<le> \<bar>v\<bar>"
  shows "\<exists>k. toMillions v = binary64 (of_int k / 100)
           \<and> \<bar>of_int k - v / 10000\<bar> \<le> 1 / 2 + \<bar>v\<bar> / 10 ^ 19"
proof -
  define a where "a = v / 1000000"
  define x1 where "x1 = binary64 a"
  define b where "b = x1 * 100"
  define x2 where "x2 = binary64 b"
  define k where "k = \<lfloor>x2 + 1 / 2\<rfloor>"
  have tiny: "(2::rat) powi (- 1022) \<le> 1 / 1000000"
  proof -
    have "(2::rat) powi (- 1022) \<le> 2 powi (- 20)" by (intro power_int_increasing) simp_all
    also have "\<dots> \<le> 1 / 1000000" by simp
    finally show ?thesis .
  qed
  have aa: "\<bar>a\<bar> = \<bar>v\<bar> / 1000000" by (simp add: a_def)
  with assms have a1: "1 / 1000000 \<le> \<bar>a\<bar>" by simp
  with tiny have "2 powi (- 1022) \<le> \<bar>a\<bar>" by linarith
  from binary64_error [OF this] have e1: "\<bar>x1 - a\<bar> \<le> \<bar>a\<bar> / 2 ^ 53" by (simp add: x1_def)
  have bb: "\<bar>b\<bar> = 100 * \<bar>x1\<bar>" by (simp add: b_def abs_mult)
  have "\<bar>a\<bar> - \<bar>x1 - a\<bar> \<le> \<bar>x1\<bar>" "\<bar>x1\<bar> \<le> \<bar>a\<bar> + \<bar>x1 - a\<bar>" by linarith+
  with e1 have x1b: "\<bar>a\<bar> - \<bar>a\<bar> / 2 ^ 53 \<le> \<bar>x1\<bar>" "\<bar>x1\<bar> \<le> \<bar>a\<bar> + \<bar>a\<bar> / 2 ^ 53"
    by linarith+
  have "\<bar>a\<bar> / 2 ^ 53 \<le> \<bar>a\<bar> / 2" by (simp add: field_simps)
  with x1b bb have bl: "\<bar>a\<bar> \<le> \<bar>b\<bar>" and bu: "\<bar>b\<bar> \<le> 200 * \<bar>a\<bar>" by linarith+
  from bl a1 tiny have "2 powi (- 1022) \<le> \<bar>b\<bar>" by linarith
  from binary64_error [OF this] have e2: "\<bar>x2 - b\<bar> \<le> \<bar>b\<bar> / 2 ^ 53" by (simp add: x2_def)
  with bu have e2': "\<bar>x2 - b\<bar> \<le> 200 * \<bar>a\<bar> / 2 ^ 53" by (simp add: field_simps)
  have "b - 100 * a = 100 * (x1 - a)" by (simp add: b_def)
  then have "\<bar>b - 100 * a\<bar> = \<bar>100 * (x1 - a)\<bar>" by (simp only:)
  also have "\<dots> = 100 * \<bar>x1 - a\<bar>" by (subst abs_mult) simp
  finally have "\<bar>b - 100 * a\<bar> = 100 * \<bar>x1 - a\<bar>" .
  with e1 have e3: "\<bar>b - 100 * a\<bar> \<le> 100 * \<bar>a\<bar> / 2 ^ 53" by (simp add: field_simps)
  have "of_int k \<le> x2 + 1 / 2" "x2 + 1 / 2 < of_int k + 1" unfolding k_def by linarith+
  then have e4: "\<bar>of_int k - x2\<bar> \<le> 1 / 2" by linarith
  have "\<bar>of_int k - 100 * a\<bar> \<le> \<bar>of_int k - x2\<bar> + \<bar>x2 - b\<bar> + \<bar>b - 100 * a\<bar>" by linarith
  with e4 e2' e3 have "\<bar>of_int k - 100 * a\<bar> \<le> 1 / 2 + 300 * \<bar>a\<bar> / 2 ^ 53" by linarith
  moreover have "300 * \<bar>a\<bar> / 2 ^ 53 \<le> \<bar>v\<bar> / 10 ^ 19" by (simp add: aa field_simps)
  moreover have "100 * a = v / 10000" by (simp add: a_def)
  ultimately have "\<bar>of_int k - v / 10000\<bar> \<le> 1 / 2 + \<bar>v\<bar> / 10 ^ 19" by simp
  moreover have "toMillions v = binary64 (of_int k / 100)"
    by (simp add: toMillions_def Math_round_def k_def x2_def b_def x1_def a_def)
  ultimately show ?thesis by blast
qed

lemma toMillions_0: "toMillions 0 = 0"
proof -
  have "\<lfloor>(1::rat) / 2\<rfloor> = 0" by (simp add: floor_eq_iff)
  then show ?thesis by (simp add: toMillions_def binary64_def Math_round_def)
qed

lemma toMillions_example: "toMillions 12345678 = binary64 (1235 / 100)"
proof -
  from toMillions_near [of 12345678]
  obtain k where k: "toMillions 12345678 = binary64 (of_int k / 100)"
    and n: "\<bar>of_int k - (12345678::rat) / 10000\<bar> \<le> 1 / 2 + \<bar>12345678\<bar> / 10 ^ 19"
    by auto
  have "\<bar>12345678 :: rat\<bar> / 10 ^ 19 \<le> 1 / 100" by simp
  with n have "\<bar>of_int k - (12345678::rat) / 10000\<bar> \<le> 51 / 100" by linarith
  then have "(1234 :: rat) < of_int k" "(of_int k :: rat) < 1236" by linarith+
  then have "1234 < k" "k < 1236" by simp_all
  then have "k = 1235" by simp
  with k show ?thesis by simp
qed

lemma toMillions_full: "toMillions 1234567 = binary64 (123 / 100)"
proof -
  from toMillions_near [of 1234567]
  obtain k where k: "toMillions 1234567 = binary64 (of_int k / 100)"
    and n: "\<bar>of_int k - (1234567::rat) / 10000\<bar> \<le> 1 / 2 + \<bar>1234567\<bar> / 10 ^ 19"
    by auto
  have "\<bar>1234567 :: rat\<bar> / 10 ^ 19 \<le> 1 / 100" by simp
  with n have "\<bar>of_int k - (1234567::rat) / 10000\<bar> \<le> 51 / 100" by linarith
  then have "(122 :: rat) < of_int k" "(of_int k :: rat) < 124" by linarith+
  then have "122 < k" "k < 124" by simp_all
  then have "k = 123" by simp
  with k show ?thesis by simp
qed

text \<open>For a whole number of dollars below ten to the fifteenth the error of the
  arithmetic is too small to matter: the result is a nearest hundredth of a
  million.\<close>

lemma toMillions_int_near:
  assumes "\<bar>n\<bar> < 10 ^ 15"
  shows "\<exists>k. toMillions (of_int n) = binary64 (of_int k / 100)
           \<and> \<bar>of_int k - (of_int n :: rat) / 10000\<bar> \<le> 1 / 2"
proof (cases "n = 0")
  case True
  have "toMillions (of_int 0) = binary64 (of_int 0 / 100)"
    using toMillions_0 by (simp add: binary64_def)
  with True show ?thesis by (intro exI [of _ 0]) simp
next
  case False
  then have "1 \<le> \<bar>n\<bar>" by simp
  then have "(of_int 1 :: rat) \<le> of_int \<bar>n\<bar>" by (simp only: of_int_le_iff)
  then have "1 \<le> \<bar>of_int n :: rat\<bar>" by simp
  from toMillions_near [OF this]
  obtain k where k: "toMillions (of_int n) = binary64 (of_int k / 100)"
    and e: "\<bar>of_int k - (of_int n :: rat) / 10000\<bar> \<le> 1 / 2 + \<bar>of_int n\<bar> / 10 ^ 19"
    by blast
  from assms have "(of_int \<bar>n\<bar> :: rat) < of_int (10 ^ 15)" by (simp only: of_int_less_iff)
  then have "\<bar>of_int n :: rat\<bar> < 10 ^ 15" by simp
  then have "\<bar>of_int n :: rat\<bar> / 10 ^ 19 < 1 / 10000" by simp
  with e have "\<bar>of_int k - (of_int n :: rat) / 10000\<bar> < 1 / 2 + 1 / 10000" by linarith
  then have "of_int k - (of_int n :: rat) / 10000 < 1 / 2 + 1 / 10000"
    "- (1 / 2 + 1 / 10000) < of_int k - (of_int n :: rat) / 10000"
    by linarith+
  then have "10000 * of_int k - (of_int n :: rat) < 5001"
    "- 5001 < 10000 * of_int k - (of_int n :: rat)"
    by linarith+
  then have "(of_int (10000 * k - n) :: rat) < of_int 5001"
    "(of_int (- 5001) :: rat) < of_int (10000 * k - n)"
    by simp_all
  then have "10000 * k - n < 5001" "- 5001 < 10000 * k - n" by (simp_all only: of_int_less_iff)
  then have "10000 * k - n \<le> 5000" "- 5000 \<le> 10000 * k - n" by simp_all
  then have "(of_int (10000 * k - n) :: rat) \<le> of_int 5000"
    "(of_int (- 5000) :: rat) \<le> of_int (10000 * k - n)"
    by (simp_all only: of_int_le_iff)
  then have "10000 * of_int k - (of_int n :: rat) \<le> 5000"
    "- 5000 \<le> 10000 * of_int k - (of_int n :: rat)"
    by simp_all
  then have "\<bar>of_int k - (of_int n :: rat) / 10000\<bar> \<le> 1 / 2"
    by linarith
  with k show ?thesis by blast
qed

text \<open>12.35 and 1 as binary64 values.\<close>

lemma binary64_1: "binary64 (100 / 100) = 1"
proof -
  have "binary64 (100 / 100) = of_int 4503599627370496 * 2 powi (- 52)"
    by (rule binary64_eqI) simp_all
  then show ?thesis by simp
qed


lemma binary64_12_35: "binary64 (1235 / 100) = 6952431924753203 / 2 ^ 49"
proof -
  have "binary64 (1235 / 100) = of_int 6952431924753203 * 2 powi (- 49)"
    by (rule binary64_eqI) simp_all
  then show ?thesis by simp
qed

text \<open>An exact half is not always rounded up: 145000 is 0.145 million, the
  quotient is just below it, and the result is 0.14; likewise 1005000 gives 1.\<close>

lemma toMillions_145000: "toMillions 145000 = binary64 (14 / 100)"
proof -
  have x1: "binary64 (145000 / 1000000) = of_int 5224175567749775 * 2 powi (- 55)"
    by (rule binary64_eqI) simp_all
  have x2: "binary64 (of_int 5224175567749775 * 2 powi (- 55) * 100)
      = of_int 8162774324609023 * 2 powi (- 49)"
    by (rule binary64_eqI) simp_all
  have fl: "\<lfloor>(of_int 8162774324609023 * 2 powi (- 49) :: rat) + 1 / 2\<rfloor> = 14"
    by (simp add: floor_eq_iff)
  have "toMillions 145000
      = binary64 (of_int \<lfloor>binary64 (binary64 (145000 / 1000000) * 100) + 1 / 2\<rfloor> / 100)"
    by (simp only: toMillions_def Math_round_def)
  also have "\<dots> = binary64 (of_int 14 / 100)"
    by (simp only: x1 x2 fl)
  finally show ?thesis by simp
qed

lemma toMillions_1005000: "toMillions 1005000 = binary64 (100 / 100)"
proof -
  have x1: "binary64 (1005000 / 1000000) = of_int 4526117625507348 * 2 powi (- 52)"
    by (rule binary64_eqI) simp_all
  have x2: "binary64 (of_int 4526117625507348 * 2 powi (- 52) * 100)
      = of_int 7072058789855231 * 2 powi (- 46)"
    by (rule binary64_eqI) simp_all
  have fl: "\<lfloor>(of_int 7072058789855231 * 2 powi (- 46) :: rat) + 1 / 2\<rfloor> = 100"
    by (simp add: floor_eq_iff)
  have "toMillions 1005000
      = binary64 (of_int \<lfloor>binary64 (binary64 (1005000 / 1000000) * 100) + 1 / 2\<rfloor> / 100)"
    by (simp only: toMillions_def Math_round_def)
  also have "\<dots> = binary64 (of_int 100 / 100)"
    by (simp only: x1 x2 fl)
  finally show ?thesis by simp
qed

text \<open>
  C4. When the canvas of the millions chart and the chart library are there
  and the data is not empty, the widget \<^verbatim>\<open>renderCharts\<close> leaves in the slot
  \<^verbatim>\<open>revenueMillion\<close> draws one series: the total revenue of each projection
  (0 when it is absent, null or 0) under the millions transform. The transform
  takes \<open>v\<close> to \<^verbatim>\<open>Math.round((v / 1_000_000) * 100) / 100\<close>, each of the two
  divisions and the multiplication rounded as binary64 arithmetic rounds. For
  \<open>v\<close> of size 1 or more the result is the binary64 value of \<open>k / 100\<close> for a whole
  number \<open>k\<close> of hundredths of a million that is nearest to \<open>v / 10000\<close>, up to the
  error of the arithmetic, which is at most \<open>|v|\<close> over ten to the nineteenth;
  for a whole number of dollars below ten to the fifteenth, \<open>k / 100\<close> is a
  nearest hundredth of a million (an exact half can go either way: 145000
  gives 0.14 and 1005000 gives 1); 0 goes to 0; and 12345678 goes to 12.35.
\<close>

theorem millions_series:
  assumes "projections \<noteq> []" and "canvases s RevenueMillion" and "chartLib s"
  shows "(\<exists>w \<in> set (instances (renderCharts projections s)).
            charts (renderCharts projections s) RevenueMillion = Some (wid w)
            \<and> canvas w = RevenueMillion
            \<and> datasets (config w)
                = [(''Total Revenues ($ Mn per month)'',
                    map (\<lambda>p. toMillions (of_int (or_zero (total_revenue p)))) projections)])
       \<and> toMillions v
           = binary64 (of_int \<lfloor>binary64 (binary64 (v / 1000000) * 100) + 1 / 2\<rfloor> / 100)
       \<and> (1 \<le> \<bar>v\<bar> \<longrightarrow>
            (\<exists>k. toMillions v = binary64 (of_int k / 100)
                 \<and> \<bar>of_int k - v / 10000\<bar> \<le> 1 / 2 + \<bar>v\<bar> / 10 ^ 19))
       \<and> (\<bar>n\<bar> < 10 ^ 15 \<longrightarrow>
            (\<exists>k. toMillions (of_int n) = binary64 (of_int k / 100)
                 \<and> \<bar>of_int k - (of_int n :: rat) / 10000\<bar> \<le> 1 / 2))
       \<and> toMillions 0 = 0
       \<and> toMillions 12345678 = binary64 (1235 / 100)
       \<and> binary64 (1235 / 100) = 6952431924753203 / 2 ^ 49
       \<and> toMillions 145000 = binary64 (14 / 100)
       \<and> toMillions 1005000 = 1"
proof -
  let ?s2 = "draw RevenueBreakdown (bar_config projections)
               (draw RevenueLine (line_config projections) s)"
  have "canvases ?s2 RevenueMillion" "chartLib ?s2"
    using assms by (simp_all add: draw_frame)
  from draw_config [OF this, of "million_config projections"]
  obtain w where "w \<in> set (instances (draw RevenueMillion (million_config projections) ?s2))"
    and "charts (draw RevenueMillion (million_config projections) ?s2) RevenueMillion
           = Some (wid w)"
    and "canvas w = RevenueMillion" and "config w = million_config projections"
    by blast
  with assms(1) have "\<exists>w \<in> set (instances (renderCharts projections s)).
            charts (renderCharts projections s) RevenueMillion = Some (wid w)
            \<and> canvas w = RevenueMillion
            \<and> datasets (config w)
                = [(''Total Revenues ($ Mn per month)'',
                    map (\<lambda>p. toMillions (of_int (or_zero (total_revenue p)))) projections)]"
    by (auto simp: renderCharts_def million_config_def Let_def comp_def)
  moreover have "toMillions v
      = binary64 (of_int \<lfloor>binary64 (binary64 (v / 1000000) * 100) + 1 / 2\<rfloor> / 100)"
    by (simp add: toMillions_def Math_round_def)
  ultimately show ?thesis
    using toMillions_near [of v] toMillions_int_near [of n] toMillions_0 toMillions_example
      binary64_12_35 toMillions_145000 toMillions_1005000 binary64_1
    by simp
qed

theorem millions_series_witness:
  "canvases initial RevenueMillion \<and> chartLib initial
   \<and> (\<exists>w \<in> set (instances (renderCharts [bare, full] initial)).
         charts (renderCharts [bare, full] initial) RevenueMillion = Some (wid w)
         \<and> datasets (config w)
             = [(''Total Revenues ($ Mn per month)'', [0, binary64 (123 / 100)])])
   \<and> (\<exists>k. toMillions (2469135 / 2) = binary64 (of_int k / 100)
          \<and> \<bar>of_int k - (2469135 / 2 :: rat) / 10000\<bar> \<le> 1 / 2 + \<bar>2469135 / 2\<bar> / 10 ^ 19)
   \<and> (\<exists>k. toMillions 1234567 = binary64 (of_int k / 100)
          \<and> \<bar>of_int k - (1234567::rat) / 10000\<bar> \<le> 1 / 2)
   \<and> toMillions 12345678 = 6952431924753203 / 2 ^ 49"
proof -
  have c: "canvases initial RevenueMillion" "chartLib initial"
    by (simp_all add: initial_def)
  have ne: "[bare, full] \<noteq> []" by simp
  have t: "toMillions (of_int (or_zero (total_revenue bare))) = 0"
    "toMillions (of_int (or_zero (total_revenue full))) = binary64 (123 / 100)"
    by (simp_all add: bare_def full_def toMillions_full toMillions_0)
  note m = millions_series [OF ne c, of "2469135 / 2" 1234567]
  from m obtain w where w: "w \<in> set (instances (renderCharts [bare, full] initial))"
    "charts (renderCharts [bare, full] initial) RevenueMillion = Some (wid w)"
    "datasets (config w)
       = [(''Total Revenues ($ Mn per month)'',
           map (\<lambda>p. toMillions (of_int (or_zero (total_revenue p)))) [bare, full])]"
    by blast
  from w(3) t have "datasets (config w)
      = [(''Total Revenues ($ Mn per month)'', [0, binary64 (123 / 100)])]"
    by simp
  with w(1,2) have "\<exists>w \<in> set (instances (renderCharts [bare, full] initial)).
         charts (renderCharts [bare, full] initial) RevenueMillion = Some (wid w)
         \<and> datasets (config w)
             = [(''Total Revenues ($ Mn per month)'', [0, binary64 (123 / 100)])]"
    by blast
  moreover have "(1::rat) \<le> \<bar>2469135 / 2\<bar>" by simp
  with m have "\<exists>k. toMillions (2469135 / 2) = binary64 (of_int k / 100)
          \<and> \<bar>of_int k - (2469135 / 2 :: rat) / 10000\<bar> \<le> 1 / 2 + \<bar>2469135 / 2\<bar> / 10 ^ 19"
    by blast
  moreover have "\<bar>1234567 :: int\<bar> < 10 ^ 15" by simp
  with m have "\<exists>k. toMillions (of_int 1234567) = binary64 (of_int k / 100)
          \<and> \<bar>of_int k - (of_int 1234567 :: rat) / 10000\<bar> \<le> 1 / 2"
    by blast
  then have "\<exists>k. toMillions 1234567 = binary64 (of_int k / 100)
          \<and> \<bar>of_int k - (1234567::rat) / 10000\<bar> \<le> 1 / 2"
    by simp
  moreover from m have "toMillions 12345678 = 6952431924753203 / 2 ^ 49" by simp
  ultimately show ?thesis using c by blast
qed

subsection \<open>Every operation of the class keeps its widgets owned\<close>

lemma owned_frame:
  "instances t = instances s \<Longrightarrow> charts t = charts s \<Longrightarrow> nextChart t = nextChart s
   \<Longrightarrow> owned t = owned s"
  by (simp add: owned_def)

lemma owned_switchTab: "owned s \<Longrightarrow> owned (switchTab t s)"
proof -
  assume o: "owned s"
  have "owned (s\<lparr>activeTab := t\<rparr>)" using o by (simp add: owned_def)
  then show ?thesis
    by (auto simp: switchTab_def Let_def owned_renderCharts split: option.split)
qed

lemma owned_displayResults: "owned s \<Longrightarrow> owned (displayResults data s)"
proof -
  assume o: "owned s"
  let ?ps = "case monthly_projections data of None \<Rightarrow> [] | Some ps \<Rightarrow> ps"
  let ?s7 = "displayAssumptions (case assumptions data of None \<Rightarrow> [] | Some kvs \<Rightarrow> kvs)
     (displayRevenueDrivers (case revenue_drivers data of None \<Rightarrow> [] | Some ds \<Rightarrow> ds)
       (displayProjectionsTable ?ps
         (s\<lparr>resultsShown := True, modelIdText := textContent (model_id data),
            timeHorizonText := number_toString (int (length ?ps)) @ '' months'',
            totalRevenueText := formatCurrency (Some
              (if length ?ps \<noteq> 0 then or_zero (total_revenue (?ps ! (length ?ps - 1)))
               else 0))\<rparr>)))"
  have "owned ?s7 = owned s"
    by (rule owned_frame)
       (simp_all add: displayProjectionsTable_eq displayRevenueDrivers_eq displayAssumptions_eq)
  with o have "owned (switchTab Charts (renderCharts ?ps ?s7))"
    by (simp add: owned_switchTab owned_renderCharts)
  then show ?thesis by (simp add: displayResults_def Let_def)
qed

lemma owned_catch_error: "owned s \<Longrightarrow> owned (catch_error e s)"
  by (simp add: catch_error_def showError_def owned_def)

lemma owned_generateModel: "owned s \<Longrightarrow> owned (generateModel net s)"
proof -
  assume o: "owned s"
  have f: "\<And>t. owned t \<Longrightarrow> owned (showLoading False t)"
    by (simp add: showLoading_def owned_def)
  let ?s2 = "s\<lparr>loadingShown := True, errorShown := False,
               requests := requests s @ [Search [(''query'', trim (queryInput s))]]\<rparr>"
  have o2: "owned ?s2" using o by (simp add: owned_def)
  have o3: "\<And>data. owned (?s2\<lparr>currentModel := Some data\<rparr>)" using o by (simp add: owned_def)
  show ?thesis
  proof (cases "trim (queryInput s) = []")
    case True
    with o show ?thesis by (simp add: generateModel_def showError_def owned_def)
  next
    case False
    with o2 o3 show ?thesis
      by (auto simp: generateModel_def Let_def showLoading_def hideError_def
            intro!: f [unfolded showLoading_def] owned_catch_error owned_displayResults
            split: fetch_result.split body.split)
  qed
qed

lemma owned_resetUI: "owned s \<Longrightarrow> owned (resetUI s)"
  by (simp add: resetUI_def hideError_def owned_def)

lemma owned_exportToExcel: "owned s \<Longrightarrow> owned (exportToExcel net s)"
  by (auto simp: exportToExcel_def Let_def showLoading_def showSuccess_def catch_error_def
        showError_def owned_def split: option.split blob_result.split)


end
